theory Spec2Isabelle
  imports Complex_Main
begin

section \<open>Strings, white space and the clock\<close>

text \<open>
  A JavaScript string is a sequence of UTF-16 code units; the model keeps it as the list
  of their numeric values, so \<open>length\<close> is JavaScript's \<open>.length\<close>. ASCII text is
  written through \<open>asc\<close>; text outside ASCII (the Chinese comments and labels of the
  sources, the emoji of the log lines) is written as its code units. \<open>ln\<close> is one line
  of a multi-line literal: its text and the line break that ends it.
\<close>

type_synonym jsstring = "nat list"

definition asc :: "string \<Rightarrow> jsstring" where
  "asc s = map of_char s"

definition nl :: jsstring where
  "nl = [10]"

definition ln :: "jsstring \<Rightarrow> jsstring" where
  "ln s = s @ nl"

text \<open>
  \<open>String.prototype.trim\<close> removes white space and line terminators from both ends:
  TAB, LF, VT, FF, CR, SP, NBSP, U+1680, U+2000..U+200A, U+2028, U+2029, U+202F, U+205F,
  U+3000 and U+FEFF.
\<close>

definition isWhiteSpace :: "nat \<Rightarrow> bool" where
  "isWhiteSpace c =
     (c \<in> set [9, 10, 11, 12, 13, 32, 160, 5760, 8232, 8233, 8239, 8287, 12288, 65279]
      \<or> (8192 \<le> c \<and> c \<le> 8202))"

definition trim :: "jsstring \<Rightarrow> jsstring" where
  "trim s = rev (dropWhile isWhiteSpace (rev (dropWhile isWhiteSpace s)))"

text \<open>
  Numbers are printed in decimal when a template literal interpolates them (the render
  time and the markup length of the server's log lines are integers).
\<close>

definition digit :: "nat \<Rightarrow> nat" where
  "digit n = 48 + n mod 10"

function showNat :: "nat \<Rightarrow> jsstring" where
  "showNat n = (if n < 10 then [digit n] else showNat (n div 10) @ [digit n])"
  by pat_completeness auto
termination
  by (relation "measure (\<lambda>n. n)") auto

definition showInt :: "int \<Rightarrow> jsstring" where
  "showInt i = (if i < 0 then asc ''-'' @ showNat (nat (- i)) else showNat (nat i))"

text \<open>
  \<open>new Date()\<close> reads the clock. The model takes the reading as its UTC calendar
  fields, named after the getters of \<open>Date\<close> (the month counts from 0), and
  \<open>toISOString\<close> prints them as \<open>YYYY-MM-DDTHH:mm:ss.sssZ\<close>, a year outside 0..9999 as
  a sign and six digits.
\<close>

record date =
  utcFullYear :: int
  utcMonth :: nat
  utcDate :: nat
  utcHours :: nat
  utcMinutes :: nat
  utcSeconds :: nat
  utcMilliseconds :: nat

definition padDigits :: "nat \<Rightarrow> nat \<Rightarrow> jsstring" where
  "padDigits w n = map (\<lambda>i. digit (n div 10 ^ i)) (rev [0..<w])"

definition isoYear :: "int \<Rightarrow> jsstring" where
  "isoYear y =
     (if 0 \<le> y \<and> y \<le> 9999 then padDigits 4 (nat y)
      else (if y < 0 then asc ''-'' else asc ''+'') @ padDigits 6 (nat \<bar>y\<bar>))"

definition toISOString :: "date \<Rightarrow> jsstring" where
  "toISOString d =
     isoYear (utcFullYear d) @ asc ''-'' @ padDigits 2 (utcMonth d + 1) @ asc ''-'' @
     padDigits 2 (utcDate d) @ asc ''T'' @ padDigits 2 (utcHours d) @ asc '':'' @
     padDigits 2 (utcMinutes d) @ asc '':'' @ padDigits 2 (utcSeconds d) @ asc ''.'' @
     padDigits 3 (utcMilliseconds d) @ asc ''Z''"

section \<open>The template assembler (server/template.js)\<close>

text \<open>
  The mount point is the element \<open><div id="root">...</div>\<close> of the template; the client
  looks it up by the same id.
\<close>

definition mountId :: jsstring where
  "mountId = asc ''root''"

definition mountOpen :: jsstring where
  \<open>mountOpen = asc ''<div id="'' @ mountId @ asc ''">''\<close>

definition mountClose :: jsstring where
  \<open>mountClose = asc ''</div>''\<close>

text \<open>
  The template literal of \<open>renderTemplate\<close>, line by line. Four of its lines
  interpolate a value; the lines before, between and after them are the five fixed
  blocks \<open>shell1\<close> .. \<open>shell5\<close>. The eight explanatory HTML comments of the literal
  are part of the document that is sent; each is a constant of its own.
\<close>

definition metaComment :: jsstring where
  \<open>metaComment =
     ln (asc ''  <!--'') @
     ln (asc ''    '' @ [0x3010] @ asc ''Meta '' @ [0x6807, 0x7B7E, 0x8BF4, 0x660E, 0x3011]) @
     ln (asc ''    charset: '' @ [0x5B57, 0x7B26, 0x7F16, 0x7801]) @
     ln (asc ''    viewport: '' @ [0x79FB, 0x52A8, 0x7AEF, 0x9002, 0x914D, 0x5173, 0x952E, 0x8BBE, 0x7F6E]) @
     ln (asc ''    - width=device-width: '' @ [0x5BBD, 0x5EA6, 0x7B49, 0x4E8E, 0x8BBE, 0x5907, 0x5BBD, 0x5EA6]) @
     ln (asc ''    - initial-scale=1.0: '' @ [0x521D, 0x59CB, 0x7F29, 0x653E, 0x6BD4, 0x4F8B] @ asc '' 1:1'') @
     ln (asc ''    - maximum-scale=1.0: '' @ [0x7981, 0x6B62, 0x7528, 0x6237, 0x7F29, 0x653E, 0xFF08, 0x53EF, 0x9009, 0xFF09]) @
     ln (asc ''    - user-scalable=no: '' @ [0x7981, 0x6B62, 0x7528, 0x6237, 0x7F29, 0x653E, 0xFF08, 0x53EF, 0x9009, 0xFF09]) @
     ln (asc ''  -->'')\<close>

definition seoComment :: jsstring where
  \<open>seoComment =
     ln (asc ''  <!--'') @
     ln (asc ''    '' @ [0x3010] @ asc ''SEO '' @ [0x76F8, 0x5173, 0x3011]) @
     ln (asc ''    SSR '' @ [0x7684, 0x4E00, 0x4E2A, 0x91CD, 0x8981, 0x4F18, 0x52BF, 0x662F] @ asc '' SEO '' @ [0x53CB, 0x597D]) @
     ln (asc ''    '' @ [0x641C, 0x7D22, 0x5F15, 0x64CE, 0x722C, 0x866B, 0x53EF, 0x4EE5, 0x76F4, 0x63A5, 0x770B, 0x5230, 0x5B8C, 0x6574, 0x5185, 0x5BB9]) @
     ln (asc ''  -->'')\<close>

definition openGraphComment :: jsstring where
  \<open>openGraphComment =
     ln (asc ''  <!--'') @
     ln (asc ''    '' @ [0x3010] @ asc ''Open Graph '' @ [0x6807, 0x7B7E, 0x3011]) @
     ln (asc ''    '' @ [0x7528, 0x4E8E, 0x793E, 0x4EA4, 0x5A92, 0x4F53, 0x5206, 0x4EAB, 0x65F6, 0x7684, 0x9884, 0x89C8, 0x5C55, 0x793A]) @
     ln (asc ''    SSR '' @ [0x53EF, 0x4EE5, 0x52A8, 0x6001, 0x8BBE, 0x7F6E, 0x8FD9, 0x4E9B, 0x6807, 0x7B7E]) @
     ln (asc ''  -->'')\<close>

definition stylesheetComment :: jsstring where
  \<open>stylesheetComment =
     ln (asc ''  <!--'') @
     ln (asc ''    '' @ [0x3010, 0x6837, 0x5F0F, 0x6587, 0x4EF6, 0x3011]) @
     ln (asc ''    '' @ [0x7531] @ asc '' webpack.client.js '' @ [0x6784, 0x5EFA, 0x751F, 0x6210]) @
     ln (asc ''    '' @ [0x653E, 0x5728] @ asc '' <head> '' @ [0x4E2D, 0x786E, 0x4FDD, 0x6837, 0x5F0F, 0x5148, 0x4E8E, 0x5185, 0x5BB9, 0x52A0, 0x8F7D]) @
     ln (asc ''    '' @ [0x907F, 0x514D] @ asc '' FOUC'' @ [0xFF08] @ asc ''Flash of Unstyled Content'' @ [0xFF09]) @
     ln (asc ''  -->'')\<close>

definition preloadComment :: jsstring where
  \<open>preloadComment =
     ln (asc ''  <!--'') @
     ln (asc ''    '' @ [0x3010, 0x53EF, 0x9009, 0x3011, 0x9884, 0x52A0, 0x8F7D, 0x5173, 0x952E, 0x8D44, 0x6E90]) @
     ln (asc ''    <link rel="preload" href="/bundle.js" as="script">'') @
     ln (asc ''  -->'')\<close>

definition mountPointComment :: jsstring where
  \<open>mountPointComment =
     ln (asc ''  <!--'') @
     ln (asc ''    '' @ [0x3010] @ asc ''React '' @ [0x5E94, 0x7528, 0x6302, 0x8F7D, 0x70B9, 0x3011]) @
     ln (asc ''    '') @
     ln (asc ''    '' @ [0x8FD9, 0x662F] @ asc '' SSR '' @ [0x7684, 0x6838, 0x5FC3, 0x90E8, 0x5206, 0xFF1A]) @
     ln (asc ''    - id="root" '' @ [0x662F] @ asc '' React '' @ [0x5E94, 0x7528, 0x7684, 0x6302, 0x8F7D, 0x70B9]) @
     ln (asc ''    - '' @ [0x670D, 0x52A1, 0x7AEF, 0x6E32, 0x67D3, 0x7684] @ asc '' HTML '' @ [0x76F4, 0x63A5, 0x653E, 0x5728, 0x8FD9, 0x91CC]) @
     ln (asc ''    - '' @ [0x5BA2, 0x6237, 0x7AEF] @ asc '' hydrateRoot '' @ [0x4F1A, 0x627E, 0x5230, 0x8FD9, 0x4E2A, 0x5143, 0x7D20, 0x8FDB, 0x884C, 0x6C34, 0x5408]) @
     ln (asc ''    '') @
     ln (asc ''    '' @ [0x3010, 0x91CD, 0x8981, 0x3011]) @
     ln (asc ''    '' @ [0x670D, 0x52A1, 0x7AEF, 0x6E32, 0x67D3, 0x7684, 0x5185, 0x5BB9, 0x5FC5, 0x987B, 0x4E0E, 0x5BA2, 0x6237, 0x7AEF, 0x9996, 0x6B21, 0x6E32, 0x67D3, 0x4E00, 0x81F4]) @
     ln (asc ''    '' @ [0x5426, 0x5219, 0x4F1A, 0x51FA, 0x73B0, 0x6C34, 0x5408, 0x9519, 0x8BEF, 0xFF08] @ asc ''Hydration Mismatch'' @ [0xFF09]) @
     ln (asc ''  -->'')\<close>

definition debugComment :: jsstring where
  \<open>debugComment =
     ln (asc ''  <!--'') @
     ln (asc ''    '' @ [0x3010, 0x8C03, 0x8BD5, 0x4FE1, 0x606F, 0x3011]) @
     ln (asc ''    '' @ [0x8FD9, 0x6BB5, 0x6CE8, 0x91CA, 0x5728, 0x5F00, 0x53D1, 0x65F6, 0x6709, 0x52A9, 0x4E8E, 0x786E, 0x8BA4] @ asc '' SSR '' @ [0x662F, 0x5426, 0x751F, 0x6548]) @
     ln (asc ''    '' @ [0x751F, 0x4EA7, 0x73AF, 0x5883, 0x53EF, 0x4EE5, 0x79FB, 0x9664]) @
     ln (asc ''  -->'')\<close>

definition scriptComment :: jsstring where
  \<open>scriptComment =
     ln (asc ''  <!--'') @
     ln (asc ''    '' @ [0x3010, 0x5BA2, 0x6237, 0x7AEF] @ asc '' JavaScript'' @ [0x3011]) @
     ln (asc ''    '') @
     ln (asc ''    '' @ [0x7531] @ asc '' webpack.client.js '' @ [0x6784, 0x5EFA, 0x751F, 0x6210]) @
     ln (asc ''    '' @ [0x653E, 0x5728] @ asc '' body '' @ [0x5E95, 0x90E8, 0x7684, 0x539F, 0x56E0, 0xFF1A]) @
     ln (asc ''    1. '' @ [0x4E0D, 0x963B, 0x585E] @ asc '' HTML '' @ [0x89E3, 0x6790, 0x548C, 0x6E32, 0x67D3]) @
     ln (asc ''    2. '' @ [0x7528, 0x6237, 0x53EF, 0x4EE5, 0x66F4, 0x5FEB, 0x770B, 0x5230, 0x5185, 0x5BB9]) @
     ln (asc ''    3. DOM '' @ [0x5DF2, 0x51C6, 0x5907, 0x597D, 0xFF0C, 0x53EF, 0x4EE5, 0x76F4, 0x63A5, 0x64CD, 0x4F5C]) @
     ln (asc ''    '') @
     ln (asc ''    '' @ [0x3010, 0x6267, 0x884C, 0x6D41, 0x7A0B, 0x3011]) @
     ln (asc ''    1. '' @ [0x6D4F, 0x89C8, 0x5668, 0x89E3, 0x6790, 0x5230, 0x8FD9, 0x4E2A] @ asc '' script '' @ [0x6807, 0x7B7E]) @
     ln (asc ''    2. '' @ [0x4E0B, 0x8F7D] @ asc '' bundle.js'') @
     ln (asc ''    3. '' @ [0x6267, 0x884C] @ asc '' bundle.js'') @
     ln (asc ''    4. React '' @ [0x8C03, 0x7528] @ asc '' hydrateRoot '' @ [0x8FDB, 0x884C, 0x6C34, 0x5408]) @
     ln (asc ''    5. '' @ [0x9875, 0x9762, 0x53D8, 0x5F97, 0x53EF, 0x4EA4, 0x4E92]) @
     ln (asc ''  -->'')\<close>

definition shell1 :: jsstring where
  \<open>shell1 =
     nl @
     ln (asc ''<!DOCTYPE html>'') @
     ln (asc ''<html lang="zh-CN">'') @
     ln (asc ''<head>'') @
     metaComment @
     ln (asc ''  <meta charset="UTF-8">'') @
     ln (asc ''  <meta name="viewport" content="width=device-width, initial-scale=1.0, maximum-scale=1.0, user-scalable=no">'') @
     ln (asc ''  <meta http-equiv="X-UA-Compatible" content="ie=edge">'') @
     ln (asc ''  '') @
     seoComment @
     ln (asc ''  <meta name="description" content="React SSR '' @ [0x540C, 0x6784, 0x6E32, 0x67D3, 0x6559, 0x5B66, 0x6F14, 0x793A, 0x9879, 0x76EE] @ asc ''">'') @
     ln (asc ''  <meta name="keywords" content="React, SSR, '' @ [0x540C, 0x6784] @ asc '', '' @ [0x670D, 0x52A1, 0x7AEF, 0x6E32, 0x67D3] @ asc '', hydrate">'') @
     ln (asc ''  '') @
     openGraphComment\<close>

definition shell2 :: jsstring where
  \<open>shell2 =
     ln (asc ''  <meta property="og:description" content="React SSR '' @ [0x540C, 0x6784, 0x6E32, 0x67D3, 0x6559, 0x5B66, 0x6F14, 0x793A, 0x9879, 0x76EE] @ asc ''">'') @
     ln (asc ''  <meta property="og:type" content="website">'') @
     ln (asc ''  '')\<close>

definition shell3 :: jsstring where
  \<open>shell3 =
     ln (asc ''  '') @
     stylesheetComment @
     ln (asc ''  <link rel="stylesheet" href="/styles.css">'') @
     ln (asc ''  '') @
     preloadComment @
     ln (asc ''</head>'') @
     ln (asc ''<body>'') @
     mountPointComment\<close>

definition shell4 :: jsstring where
  \<open>shell4 =
     ln (asc ''  '') @
     debugComment\<close>

definition shell5 :: jsstring where
  \<open>shell5 =
     ln (asc ''  '') @
     scriptComment @
     ln (asc ''  <script src="/bundle.js"></script>'') @
     ln (asc ''</body>'') @
     ln (asc ''</html>'')\<close>


text \<open>
  \<open>function renderTemplate({ appHtml, title = 'React SSR Demo' })\<close>: the title is
  optional (\<open>None\<close> is JavaScript's \<open>undefined\<close>) and defaults to a fixed string; the
  four lines of the literal that interpolate a value are filled in between the blocks,
  and the whole is trimmed.
\<close>

definition defaultTitle :: jsstring where
  "defaultTitle = asc ''React SSR Demo''"

definition renderTemplate :: "jsstring \<Rightarrow> jsstring option \<Rightarrow> date \<Rightarrow> jsstring" where
  \<open>renderTemplate appHtml titleArg now =
     (let title = (case titleArg of None \<Rightarrow> defaultTitle | Some t \<Rightarrow> t) in
      trim (shell1 @
            ln (asc ''  <meta property="og:title" content="'' @ title @ asc ''">'') @
            shell2 @
            ln (asc ''  <title>'' @ title @ asc ''</title>'') @
            shell3 @
            ln (asc ''  '' @ mountOpen @ appHtml @ mountClose) @
            shell4 @
            ln (asc ''  <!-- SSR rendered at: '' @ toISOString now @ asc '' -->'') @
            shell5))\<close>

section \<open>The shared application (shared/App.jsx)\<close>

text \<open>
  A React element is a host element with its props and children, a text, or one of the
  components whose bodies live in other files (\<open>Header\<close>, \<open>Footer\<close> and the three
  pages). A router puts the current location in context for what it wraps.
\<close>

datatype propValue = Str jsstring | Style "(jsstring \<times> jsstring) list"

datatype component = Header | Footer | Home | About | Counter

datatype element =
    Host jsstring "(jsstring \<times> propValue) list" "element list"
  | Text jsstring
  | Component component
  | Router jsstring element

text \<open>The 404 page, \<open>function NotFound()\<close>.\<close>

definition NotFound :: element where
  "NotFound =
     Host (asc ''div'') [(asc ''className'', Str (asc ''page''))]
       [Host (asc ''div'')
          [(asc ''className'', Str (asc ''page__card'')),
           (asc ''style'', Style [(asc ''textAlign'', asc ''center'')])]
          [Host (asc ''h2'') [(asc ''className'', Str (asc ''page__title''))]
             [Text ([0xD83D, 0xDE05] @ asc '' 404'')],
           Host (asc ''p'') [(asc ''className'', Str (asc ''page__text''))]
             [Text ([0x9875, 0x9762, 0x4E0D, 0x5B58, 0x5728])]]]"

text \<open>
  The route table of \<open>App\<close>, in the order of its \<open><Route>\<close> children. \<open><Routes>\<close>
  renders the element of the route that matches the location. Whether a path pattern
  matches is the router library's decision and a parameter here (\<open>matchPath\<close>); the
  pattern \<open>*\<close> matches every location, and the library tries it after every other
  pattern, which is where the table has it.
\<close>

definition routeTable :: "(jsstring \<times> element) list" where
  "routeTable =
     [(asc ''/'', Component Home),
      (asc ''/about'', Component About),
      (asc ''/counter'', Component Counter),
      (asc ''*'', NotFound)]"

fun Routes :: "(jsstring \<Rightarrow> jsstring \<Rightarrow> bool) \<Rightarrow> jsstring \<Rightarrow> (jsstring \<times> element) list \<Rightarrow> element list" where
  "Routes matchPath location [] = []"
| "Routes matchPath location ((path, el) # routes) =
     (if path = asc ''*'' \<or> matchPath path location then [el]
      else Routes matchPath location routes)"

definition App :: "(jsstring \<Rightarrow> jsstring \<Rightarrow> bool) \<Rightarrow> jsstring \<Rightarrow> element" where
  "App matchPath location =
     Host (asc ''div'') [(asc ''className'', Str (asc ''app''))]
       [Component Header,
        Host (asc ''main'') [] (Routes matchPath location routeTable),
        Component Footer]"

text \<open>
  \<open><StaticRouter location={req.url}>\<close> on the server and \<open><BrowserRouter>\<close> in the
  browser (which reads \<open>window.location\<close>) provide the location to the application they
  wrap.
\<close>

definition StaticRouter :: "(jsstring \<Rightarrow> jsstring \<Rightarrow> bool) \<Rightarrow> jsstring \<Rightarrow> element" where
  "StaticRouter matchPath location = Router location (App matchPath location)"

definition BrowserRouter :: "(jsstring \<Rightarrow> jsstring \<Rightarrow> bool) \<Rightarrow> jsstring \<Rightarrow> element" where
  "BrowserRouter matchPath windowLocation = Router windowLocation (App matchPath windowLocation)"

section \<open>The render server (server/index.js)\<close>

text \<open>
  \<open>ReactDOMServer.renderToString\<close> is the library's: it returns the markup of an element
  or throws. What is thrown is taken to be an \<open>Error\<close> object, whose \<open>message\<close> is a
  string: that is what React and the components of an application throw, and it is an
  assumption of the model (the \<open>catch\<close> block reads \<open>error.message\<close> of whatever was
  thrown). The server reads the clock three times: \<open>Date.now()\<close> on entry and after the
  render, \<open>new Date()\<close> inside the template.
\<close>

datatype exn = Error jsstring

fun message :: "exn \<Rightarrow> jsstring" where
  "message (Error m) = m"

text \<open>
  How React's \<open>renderToString\<close> writes the elements of this application. A host element
  is written as its opening tag with its attributes, its children in order and its
  closing tag; a text is escaped; adjacent texts are separated by an empty comment; a
  component whose body is in another file renders to what \<open>components\<close> gives for it at
  the location of the enclosing router, a markup or an exception, and the first
  exception ends the render. A prop \<open>className\<close> is the attribute \<open>class\<close>, a
  \<open>style\<close> object is written as \<open>name:value\<close> declarations with hyphenated names.
  (Void elements, event handlers and numeric style values do not occur in \<open>App\<close> and
  \<open>NotFound\<close> and are not modelled.)
\<close>

definition escapeUnit :: "nat \<Rightarrow> jsstring" where
  "escapeUnit c =
     (if c = 38 then asc ''&amp;''
      else if c = 60 then asc ''&lt;''
      else if c = 62 then asc ''&gt;''
      else if c = 34 then asc ''&quot;''
      else if c = 39 then asc ''&#x27;''
      else [c])"

definition escapeHtml :: "jsstring \<Rightarrow> jsstring" where
  "escapeHtml s = concat (map escapeUnit s)"

definition attributeName :: "jsstring \<Rightarrow> jsstring" where
  "attributeName name =
     (if name = asc ''className'' then asc ''class''
      else if name = asc ''htmlFor'' then asc ''for''
      else name)"

definition hyphenate :: "jsstring \<Rightarrow> jsstring" where
  "hyphenate name = concat (map (\<lambda>c. if 65 \<le> c \<and> c \<le> 90 then [45, c + 32] else [c]) name)"

fun styleText :: "(jsstring \<times> jsstring) list \<Rightarrow> jsstring" where
  "styleText [] = []"
| "styleText [(name, v)] = hyphenate name @ asc '':'' @ v"
| "styleText ((name, v) # others) = hyphenate name @ asc '':'' @ v @ asc '';'' @ styleText others"

fun attribute :: "jsstring \<times> propValue \<Rightarrow> jsstring" where
  \<open>attribute (name, Str v) = asc '' '' @ attributeName name @ asc ''="'' @ escapeHtml v @ asc ''"''\<close>
| \<open>attribute (name, Style decls) =
     asc '' '' @ attributeName name @ asc ''="'' @ escapeHtml (styleText decls) @ asc ''"''\<close>

fun textSeparator :: "element \<Rightarrow> element list \<Rightarrow> jsstring" where
  "textSeparator (Text a) (Text b # others) = asc ''<!-- -->''"
| "textSeparator el others = []"

fun reactRender :: "(component \<Rightarrow> jsstring \<Rightarrow> exn + jsstring) \<Rightarrow> jsstring \<Rightarrow> element \<Rightarrow> exn + jsstring"
  and reactRenderAll :: "(component \<Rightarrow> jsstring \<Rightarrow> exn + jsstring) \<Rightarrow> jsstring \<Rightarrow> element list \<Rightarrow> exn + jsstring"
where
  "reactRender components location (Text t) = Inr (escapeHtml t)"
| "reactRender components location (Component c) = components c location"
| "reactRender components location (Router routerLocation el) =
     reactRender components routerLocation el"
| "reactRender components location (Host tag props children) =
     (case reactRenderAll components location children of
        Inl error \<Rightarrow> Inl error
      | Inr inner \<Rightarrow>
          Inr (asc ''<'' @ tag @ concat (map attribute props) @ asc ''>'' @ inner @
               asc ''</'' @ tag @ asc ''>''))"
| "reactRenderAll components location [] = Inr []"
| "reactRenderAll components location (el # others) =
     (case reactRender components location el of
        Inl error \<Rightarrow> Inl error
      | Inr first \<Rightarrow>
          (case reactRenderAll components location others of
             Inl error \<Rightarrow> Inl error
           | Inr rest \<Rightarrow> Inr (first @ textSeparator el others @ rest)))"

record server =
  renderToString :: "element \<Rightarrow> exn + jsstring"
  matchPath :: "jsstring \<Rightarrow> jsstring \<Rightarrow> bool"
  startTime :: int
  endTime :: int
  today :: date

text \<open>
  What a request does besides answering: the lines it writes to the console and its
  calls of the render primitive, in order.
\<close>

datatype event =
    ConsoleLog jsstring
  | ConsoleError jsstring exn
  | CallRenderToString element

record response =
  status :: nat
  body :: jsstring

record outcome =
  response :: response
  events :: "event list"

definition pageTitle :: jsstring where
  "pageTitle = asc ''React SSR '' @ [0x6559, 0x5B66, 0x6F14, 0x793A]"

text \<open>The error page of the \<open>catch\<close> block: a template literal of its own, sent as it is.\<close>

definition errorPage :: "jsstring \<Rightarrow> jsstring" where
  \<open>errorPage msg =
     nl @
     ln (asc ''      <!DOCTYPE html>'') @
     ln (asc ''      <html>'') @
     ln (asc ''        <head>'') @
     ln (asc ''          <meta charset="UTF-8">'') @
     ln (asc ''          <title>'' @ [0x670D, 0x52A1, 0x5668, 0x9519, 0x8BEF] @ asc ''</title>'') @
     ln (asc ''        </head>'') @
     ln (asc ''        <body>'') @
     ln (asc ''          <h1>'' @ [0x670D, 0x52A1, 0x5668, 0x6E32, 0x67D3, 0x9519, 0x8BEF] @ asc ''</h1>'') @
     ln (asc ''          <pre>'' @ msg @ asc ''</pre>'') @
     ln (asc ''        </body>'') @
     ln (asc ''      </html>'') @
     asc ''    ''\<close>

text \<open>The handler of \<open>app.get('*', (req, res) => ...)\<close>, for a request with URL \<open>url\<close>.\<close>

definition handle :: "server \<Rightarrow> jsstring \<Rightarrow> outcome" where
  "handle srv url =
     (let element = StaticRouter (matchPath srv) url in
      case renderToString srv element of
        Inr appHtml \<Rightarrow>
          (let renderTime = endTime srv - startTime srv;
               fullHtml = renderTemplate appHtml (Some pageTitle) (today srv)
           in \<lparr>response = \<lparr>status = 200, body = fullHtml\<rparr>,
               events =
                 [ConsoleLog (nl @ [0xD83D, 0xDCE5] @ asc '' '' @ [0x6536, 0x5230, 0x8BF7, 0x6C42] @ asc '': '' @ url),
                  ConsoleLog ([0xD83D, 0xDD04] @ asc '' '' @ [0x5F00, 0x59CB, 0x670D, 0x52A1, 0x7AEF, 0x6E32, 0x67D3] @ asc ''...''),
                  CallRenderToString element,
                  ConsoleLog ([0x2705] @ asc '' '' @ [0x6E32, 0x67D3, 0x5B8C, 0x6210, 0xFF0C, 0x8017, 0x65F6] @ asc '': '' @ showInt renderTime @ asc ''ms''),
                  ConsoleLog ([0xD83D, 0xDCDD] @ asc '' HTML '' @ [0x957F, 0x5EA6] @ asc '': '' @ showNat (length appHtml) @ asc '' '' @ [0x5B57, 0x7B26]),
                  ConsoleLog ([0xD83D, 0xDCE4] @ asc '' '' @ [0x54CD, 0x5E94, 0x5DF2, 0x53D1, 0x9001] @ nl)]\<rparr>)
      | Inl error \<Rightarrow>
          \<lparr>response = \<lparr>status = 500, body = errorPage (message error)\<rparr>,
           events =
             [ConsoleLog (nl @ [0xD83D, 0xDCE5] @ asc '' '' @ [0x6536, 0x5230, 0x8BF7, 0x6C42] @ asc '': '' @ url),
              ConsoleLog ([0xD83D, 0xDD04] @ asc '' '' @ [0x5F00, 0x59CB, 0x670D, 0x52A1, 0x7AEF, 0x6E32, 0x67D3] @ asc ''...''),
              CallRenderToString element,
              ConsoleError ([0x274C] @ asc '' SSR '' @ [0x6E32, 0x67D3, 0x9519, 0x8BEF] @ asc '':'') error]\<rparr>)"

section \<open>The JSON route (app/api/hello/route.js)\<close>

text \<open>
  A JSON value; an object keeps its fields in order. \<open>field\<close> reads a field of an object.
\<close>

datatype json =
    JNull
  | JBool bool
  | JNumber real
  | JString jsstring
  | JArray "json list"
  | JObject "(jsstring \<times> json) list"

fun field :: "jsstring \<Rightarrow> json \<Rightarrow> json option" where
  "field k (JObject entries) = map_of entries k"
| "field k other = None"

record apiResponse =
  apiStatus :: nat
  apiBody :: json

text \<open>
  \<open>new URL(request.url).searchParams\<close> is the list of the decoded name/value pairs of the
  query string; \<open>get\<close> returns the first value of a name, or \<open>null\<close>. The operator
  \<open>||\<close> takes its right operand when the left one is falsy: \<open>null\<close> or the empty string.
\<close>

definition searchParamsGet :: "(jsstring \<times> jsstring) list \<Rightarrow> jsstring \<Rightarrow> jsstring option" where
  "searchParamsGet searchParams name = map_of searchParams name"

definition orElse :: "jsstring option \<Rightarrow> jsstring \<Rightarrow> jsstring" where
  "orElse v d = (case v of None \<Rightarrow> d | Some s \<Rightarrow> if s = [] then d else s)"

definition GET :: "(jsstring \<times> jsstring) list \<Rightarrow> date \<Rightarrow> apiResponse" where
  "GET searchParams now =
     (let name = orElse (searchParamsGet searchParams (asc ''name'')) (asc ''World'') in
      \<lparr>apiStatus = 200,
       apiBody = JObject
         [(asc ''message'', JString (asc ''Hello, '' @ name @ asc ''!'')),
          (asc ''timestamp'', JString (toISOString now)),
          (asc ''method'', JString (asc ''GET'')),
          (asc ''description'', JString ([0x8FD9, 0x662F, 0x4E00, 0x4E2A] @ asc '' Next.js API Route '' @ [0x793A, 0x4F8B]))]\<rparr>)"

text \<open>
  \<open>await request.json()\<close> is the platform's: it settles to the parsed body, or rejects
  when the body does not parse. \<open>POST\<close> takes what it settled to.
\<close>

definition POST :: "exn + json \<Rightarrow> date \<Rightarrow> apiResponse" where
  "POST requestJson now =
     (case requestJson of
        Inr parsed \<Rightarrow>
          \<lparr>apiStatus = 201,
           apiBody = JObject
             [(asc ''received'', parsed),
              (asc ''processed'', JBool True),
              (asc ''timestamp'', JString (toISOString now)),
              (asc ''method'', JString (asc ''POST''))]\<rparr>
      | Inl error \<Rightarrow>
          \<lparr>apiStatus = 400,
           apiBody = JObject [(asc ''error'', JString ([0x65E0, 0x6548, 0x7684] @ asc '' JSON '' @ [0x6570, 0x636E]))]\<rparr>)"

section \<open>The hydration bootstrap (client/index.jsx)\<close>

text \<open>
  The browser as the entry file sees it: \<open>document.getElementById\<close> (a node, or \<open>null\<close>),
  the library's \<open>hydrateRoot\<close> (which returns or throws), the location and the router's
  matcher. The file runs once, top to bottom; an exception that \<open>hydrateRoot\<close> throws
  is caught nowhere and ends it.
\<close>

datatype domNode = DomNode nat

record browser =
  getElementById :: "jsstring \<Rightarrow> domNode option"
  hydrateRoot :: "domNode option \<Rightarrow> element \<Rightarrow> exn + unit"
  windowLocation :: jsstring
  clientMatchPath :: "jsstring \<Rightarrow> jsstring \<Rightarrow> bool"

datatype clientEvent =
    CallHydrateRoot "domNode option" element
  | ClientLog jsstring

record clientRun =
  uncaught :: "exn option"
  clientEvents :: "clientEvent list"

definition completionLines :: "jsstring list" where
  \<open>completionLines =
     [concat (replicate 50 (asc ''='')),
      [0xD83C, 0xDF89] @ asc '' React '' @ [0x6C34, 0x5408, 0xFF08] @ asc ''Hydration'' @ [0xFF09, 0x5B8C, 0x6210, 0xFF01],
      concat (replicate 50 (asc ''='')),
      nl @ [0x3010, 0x6C34, 0x5408, 0x8FC7, 0x7A0B, 0x8BF4, 0x660E, 0x3011],
      asc ''1. '' @ [0x627E, 0x5230] @ asc '' id="root" '' @ [0x7684] @ asc '' DOM '' @ [0x5143, 0x7D20],
      asc ''2. '' @ [0x590D, 0x7528, 0x670D, 0x52A1, 0x7AEF, 0x6E32, 0x67D3, 0x7684] @ asc '' HTML'',
      asc ''3. '' @ [0x7ED1, 0x5B9A, 0x4E8B, 0x4EF6, 0x5904, 0x7406, 0x5668],
      asc ''4. '' @ [0x6267, 0x884C] @ asc '' useEffect '' @ [0x526F, 0x4F5C, 0x7528],
      asc ''5. '' @ [0x9875, 0x9762, 0x73B0, 0x5728, 0x5B8C, 0x5168, 0x53EF, 0x4EA4, 0x4E92, 0xFF01] @ nl]\<close>

definition bootstrap :: "browser \<Rightarrow> clientRun" where
  "bootstrap b =
     (let container = getElementById b mountId;
          element = BrowserRouter (clientMatchPath b) (windowLocation b)
      in case hydrateRoot b container element of
           Inl error \<Rightarrow>
             \<lparr>uncaught = Some error, clientEvents = [CallHydrateRoot container element]\<rparr>
         | Inr done \<Rightarrow>
             \<lparr>uncaught = None,
              clientEvents = CallHydrateRoot container element # map ClientLog completionLines\<rparr>)"

section \<open>Reading a document\<close>

text \<open>
  What the claims say about a document is read off with a few observers:
  \<open>startsWith\<close> and \<open>endsWith\<close> (the methods of JavaScript's strings), the number of
  positions at which a text occurs, the split of a text at the first occurrence of
  another (\<open>indexOf\<close> and the two slices around it), the text between the first
  occurrence of an opening tag and the next occurrence of a closing tag, and whether a
  markup stands right after the first opening tag of the mount point, closed by its
  closing tag.
\<close>

fun startsWith :: "'a list \<Rightarrow> 'a list \<Rightarrow> bool" where
  "startsWith s [] = True"
| "startsWith [] (n # ns) = False"
| "startsWith (c # s) (n # ns) = (c = n \<and> startsWith s ns)"

definition endsWith :: "'a list \<Rightarrow> 'a list \<Rightarrow> bool" where
  "endsWith s n = startsWith (rev s) (rev n)"

fun occurrences :: "'a list \<Rightarrow> 'a list \<Rightarrow> nat" where
  "occurrences n [] = (if n = [] then 1 else 0)"
| "occurrences n (c # s) = (if startsWith (c # s) n then 1 else 0) + occurrences n s"

fun splitFirst :: "'a list \<Rightarrow> 'a list \<Rightarrow> ('a list \<times> 'a list) option" where
  "splitFirst n [] = (if n = [] then Some ([], []) else None)"
| "splitFirst n (c # s) =
     (if startsWith (c # s) n then Some ([], drop (length n) (c # s))
      else map_option (\<lambda>(before, after). (c # before, after)) (splitFirst n s))"

definition afterFirst :: "'a list \<Rightarrow> 'a list \<Rightarrow> 'a list option" where
  "afterFirst n s = map_option snd (splitFirst n s)"

definition elementText :: "'a list \<Rightarrow> 'a list \<Rightarrow> 'a list \<Rightarrow> 'a list option" where
  "elementText opening closing doc =
     (case afterFirst opening doc of
        None \<Rightarrow> None
      | Some rest \<Rightarrow> map_option fst (splitFirst closing rest))"

definition titleText :: "jsstring \<Rightarrow> jsstring option" where
  "titleText doc = elementText (asc ''<title>'') (asc ''</title>'') doc"

definition mountContent :: "jsstring \<Rightarrow> jsstring option" where
  "mountContent doc = elementText mountOpen mountClose doc"

definition mountPointHolds :: "jsstring \<Rightarrow> jsstring \<Rightarrow> bool" where
  "mountPointHolds doc markup =
     (case afterFirst mountOpen doc of
        None \<Rightarrow> False
      | Some rest \<Rightarrow> startsWith rest (markup @ mountClose))"

text \<open>
  The content of an element up to its own closing tag, nested \<open><div>\<close> elements
  counted: \<open>untilClose depth s\<close> reads \<open>s\<close> up to the \<open></div>\<close> met at depth 0. The
  content of the mount point element is what follows its first opening tag, read that
  way; a markup has balanced \<open><div>\<close> elements when the closing tag written after it is
  its own end.
\<close>

definition divOpens :: "jsstring \<Rightarrow> bool" where
  "divOpens s = (startsWith s (asc ''<div>'') \<or> startsWith s (asc ''<div ''))"

fun untilClose :: "nat \<Rightarrow> jsstring \<Rightarrow> jsstring option" where
  "untilClose depth [] = None"
| "untilClose depth (c # s) =
     (if startsWith (c # s) mountClose then
        (case depth of 0 \<Rightarrow> Some [] | Suc d \<Rightarrow> map_option ((#) c) (untilClose d s))
      else if divOpens (c # s) then map_option ((#) c) (untilClose (Suc depth) s)
      else map_option ((#) c) (untilClose depth s))"

definition mountElement :: "jsstring \<Rightarrow> jsstring option" where
  "mountElement doc =
     (case afterFirst mountOpen doc of None \<Rightarrow> None | Some rest \<Rightarrow> untilClose 0 rest)"

definition balancedDivs :: "jsstring \<Rightarrow> bool" where
  "balancedDivs markup = (untilClose 0 (markup @ mountClose) = Some markup)"

text \<open>
  The element of the \<open><pre>\<close> of the error page, read like the mount point: what
  follows the first \<open><pre>\<close> starts with the given text, closed by \<open></pre>\<close>.
\<close>

definition preHolds :: "jsstring \<Rightarrow> jsstring \<Rightarrow> bool" where
  "preHolds doc t =
     (case afterFirst (asc ''<pre>'') doc of
        None \<Rightarrow> False
      | Some rest \<Rightarrow> startsWith rest (t @ asc ''</pre>''))"

text \<open>The markup of the 404 page and of the application around a routed view.\<close>

definition notFoundHtml :: jsstring where
  \<open>notFoundHtml =
     asc ''<div class="page"><div class="page__card" style="text-align:center"><h2 class="page__title">'' @ [0xD83D, 0xDE05] @ asc '' 404</h2><p class="page__text">'' @ [0x9875, 0x9762, 0x4E0D, 0x5B58, 0x5728] @ asc ''</p></div></div>''\<close>

definition appHtmlAround :: "jsstring \<Rightarrow> jsstring \<Rightarrow> jsstring \<Rightarrow> jsstring" where
  \<open>appHtmlAround header view footer =
     asc ''<div class="app">'' @ header @ asc ''<main>'' @ view @ asc ''</main>'' @ footer @
     asc ''</div>''\<close>

text \<open>Of a request's events: the elements handed to the render primitive, and the errors logged.\<close>

fun renderCalls :: "event list \<Rightarrow> element list" where
  "renderCalls [] = []"
| "renderCalls (CallRenderToString el # evs) = el # renderCalls evs"
| "renderCalls (ev # evs) = renderCalls evs"

fun errorsLogged :: "event list \<Rightarrow> exn list" where
  "errorsLogged [] = []"
| "errorsLogged (ConsoleError label e # evs) = e # errorsLogged evs"
| "errorsLogged (ev # evs) = errorsLogged evs"

text \<open>A field of a field of a JSON value: \<open>received.name\<close> is the path \<open>[received, name]\<close>.\<close>

fun jsonPath :: "jsstring list \<Rightarrow> json \<Rightarrow> json option" where
  "jsonPath [] v = Some v"
| "jsonPath (k # ks) v = (case field k v of None \<Rightarrow> None | Some w \<Rightarrow> jsonPath ks w)"

section \<open>Sample environments\<close>

text \<open>
  Concrete inputs on which the theorems are run: a matcher that accepts a location equal
  to the pattern, two clock readings, a server whose render primitive throws, a server
  whose render primitive is React's over sample markups of the components (the footer's
  is that of \<open>Footer.jsx\<close>), and a page without the mount point, in a browser whose
  \<open>hydrateRoot\<close> refuses a missing container the way React does.
\<close>

definition exactPath :: "jsstring \<Rightarrow> jsstring \<Rightarrow> bool" where
  "exactPath pattern location = (pattern = location)"

definition noon :: date where
  "noon = \<lparr>utcFullYear = 2024, utcMonth = 0, utcDate = 15, utcHours = 12, utcMinutes = 0,
           utcSeconds = 0, utcMilliseconds = 0\<rparr>"

definition throwingServer :: server where
  "throwingServer =
     \<lparr>renderToString = (\<lambda>el. Inl (Error (asc ''boom''))), matchPath = exactPath,
      startTime = 1000, endTime = 1005, today = noon\<rparr>"

definition sampleHeader :: jsstring where
  \<open>sampleHeader = asc ''<header class="header"></header>''\<close>

definition sampleFooter :: jsstring where
  \<open>sampleFooter =
     asc ''<footer class="footer"><p class="footer__text">'' @ [0x00A9] @ asc '' 2024 <span class="footer__highlight">React SSR '' @ [0x6559, 0x5B66, 0x9879, 0x76EE] @ asc ''</span></p><p class="footer__text">'' @ [0x6F14, 0x793A] @ asc '' React 18 '' @ [0x540C, 0x6784, 0x6E32, 0x67D3, 0x6838, 0x5FC3, 0x539F, 0x7406] @ asc ''</p></footer>''\<close>

definition sampleAbout :: jsstring where
  \<open>sampleAbout = asc ''<div class="page"><h2>About</h2></div>''\<close>

fun sampleComponents :: "component \<Rightarrow> jsstring \<Rightarrow> exn + jsstring" where
  "sampleComponents Header location = Inr sampleHeader"
| "sampleComponents Footer location = Inr sampleFooter"
| "sampleComponents About location = Inr sampleAbout"
| \<open>sampleComponents Home location = Inr (asc ''<div class="page"><h2>Home</h2></div>'')\<close>
| \<open>sampleComponents Counter location = Inr (asc ''<div class="page"><h2>Counter</h2></div>'')\<close>

definition reactServer :: server where
  "reactServer =
     \<lparr>renderToString = reactRender sampleComponents [], matchPath = exactPath,
      startTime = 1000, endTime = 1005, today = noon\<rparr>"

definition evening :: date where
  "evening = \<lparr>utcFullYear = 2024, utcMonth = 0, utcDate = 15, utcHours = 21, utcMinutes = 30,
              utcSeconds = 5, utcMilliseconds = 250\<rparr>"

definition reactHydrateRoot :: "domNode option \<Rightarrow> element \<Rightarrow> exn + unit" where
  "reactHydrateRoot container el =
     (case container of
        None \<Rightarrow> Inl (Error (asc ''hydrateRoot(...): Target container is not a DOM element.''))
      | Some node \<Rightarrow> Inr ())"

definition pageWithoutRoot :: browser where
  "pageWithoutRoot =
     \<lparr>getElementById = (\<lambda>elementId. None), hydrateRoot = reactHydrateRoot,
      windowLocation = asc ''/'', clientMatchPath = exactPath\<rparr>"

section \<open>Facts about strings and the template\<close>

subsection \<open>Prefixes, occurrences and the first occurrence\<close>

lemma startsWith_append: "startsWith s n \<Longrightarrow> startsWith (s @ t) n"
  by (induction s n rule: startsWith.induct) auto

lemma startsWith_length: "startsWith s n \<Longrightarrow> length n \<le> length s"
  by (induction s n rule: startsWith.induct) auto

lemma startsWith_short: "startsWith (s @ t) n \<Longrightarrow> length n \<le> length s \<Longrightarrow> startsWith s n"
  by (induction s n rule: startsWith.induct) auto

lemma startsWith_self: "startsWith (n @ r) n"
  by (induction n) auto

lemma startsWith_stop: "c \<notin> set n \<Longrightarrow> startsWith (xs @ c # ys) n = startsWith xs n"
proof (induction xs n rule: startsWith.induct)
  case (2 n ns)
  then show ?case by auto
qed auto

lemma occurrences_no_head: "c \<notin> set s \<Longrightarrow> occurrences (c # n) s = 0"
  by (induction s) auto

lemma occurrences_split_at:
  "c \<notin> set n \<Longrightarrow> n \<noteq> [] \<Longrightarrow>
   occurrences n (xs @ c # ys) = occurrences n xs + occurrences n ys"
proof (induction xs)
  case Nil
  then show ?case by (cases n) auto
next
  case (Cons x xs)
  from Cons.prems(1) have "startsWith ((x # xs) @ c # ys) n = startsWith (x # xs) n"
    by (rule startsWith_stop)
  with Cons show ?case by simp
qed

lemma occurrences_before_fresh:
  "c \<notin> set n \<Longrightarrow> occurrences (m # n) (xs @ c # ys) = occurrences (m # n) xs + occurrences (m # n) (c # ys)"
proof (induction xs)
  case Nil
  then show ?case by simp
next
  case (Cons x xs)
  from Cons.prems have "startsWith (xs @ c # ys) n = startsWith xs n"
    by (rule startsWith_stop)
  with Cons show ?case by simp
qed

lemma splitFirst_skip:
  "c \<notin> set n \<Longrightarrow> n \<noteq> [] \<Longrightarrow> occurrences n xs = 0 \<Longrightarrow>
   splitFirst n (xs @ c # ys) = map_option (\<lambda>(b, a). (xs @ c # b, a)) (splitFirst n ys)"
proof (induction xs)
  case Nil
  then show ?case by (cases n) auto
next
  case (Cons x xs)
  from Cons.prems(3) have no: "\<not> startsWith (x # xs) n" and rest: "occurrences n xs = 0"
    by (auto split: if_splits)
  from Cons.prems(1) have "startsWith ((x # xs) @ c # ys) n = startsWith (x # xs) n"
    by (rule startsWith_stop)
  with no have "\<not> startsWith (x # xs @ c # ys) n" by simp
  with Cons.IH [OF Cons.prems(1,2) rest] show ?case
    by (cases "splitFirst n ys") auto
qed

lemma splitFirst_length: "splitFirst n s = Some (b, a) \<Longrightarrow> length n \<le> length s"
proof (induction s arbitrary: b)
  case Nil
  then show ?case by (simp split: if_splits)
next
  case (Cons c s)
  show ?case
  proof (cases "startsWith (c # s) n")
    case True
    then show ?thesis by (rule startsWith_length)
  next
    case False
    with Cons.prems obtain b' where "splitFirst n s = Some (b', a)" by auto
    then have "length n \<le> length s" by (rule Cons.IH)
    then show ?thesis by simp
  qed
qed

lemma drop_append_le: "k \<le> length s \<Longrightarrow> drop k (s @ t) = drop k s @ t"
  by simp

lemma splitFirst_append:
  "splitFirst n s = Some (b, a) \<Longrightarrow> splitFirst n (s @ t) = Some (b, a @ t)"
proof (induction s arbitrary: b)
  case Nil
  then show ?case by (cases t) (auto split: if_splits)
next
  case (Cons c s)
  show ?case
  proof (cases "startsWith (c # s) n")
    case True
    then have st: "startsWith ((c # s) @ t) n" by (rule startsWith_append)
    from True have "length n \<le> length (c # s)" by (rule startsWith_length)
    then have "drop (length n) ((c # s) @ t) = drop (length n) (c # s) @ t"
      by (rule drop_append_le)
    with st Cons.prems True show ?thesis by (simp del: drop_append)
  next
    case False
    with Cons.prems obtain b' where s: "splitFirst n s = Some (b', a)" and b: "b = c # b'"
      by auto
    from s have "length n \<le> length s" by (rule splitFirst_length)
    with False have "\<not> startsWith ((c # s) @ t) n"
      using startsWith_short [of "c # s" t n] by auto
    with Cons.IH [OF s] b show ?thesis by simp
  qed
qed

lemma afterFirst_append: "afterFirst n s = Some a \<Longrightarrow> afterFirst n (s @ t) = Some (a @ t)"
  by (auto simp: afterFirst_def splitFirst_append)

lemma splitFirst_None: "splitFirst n s = None \<Longrightarrow> occurrences n s = 0"
  by (induction s) (auto split: if_splits)

subsection \<open>Lines\<close>

lemma ln_not_Nil: "ln x \<noteq> []"
  by (simp add: ln_def nl_def)

lemma butlast_ln: "butlast (ln x) = x"
  by (simp add: ln_def nl_def)

lemma last_ln: "last (ln x) = 10"
  by (simp add: ln_def nl_def)

lemma ends_with_break: "s \<noteq> [] \<Longrightarrow> last s = 10 \<Longrightarrow> s = butlast s @ [10]"
  by (metis append_butlast_last_id)

lemma occurrences_nl:
  "10 \<notin> set n \<Longrightarrow> n \<noteq> [] \<Longrightarrow> occurrences n (nl @ ys) = occurrences n ys"
  using occurrences_split_at [of 10 n "[]" ys] by (simp add: nl_def)

lemma occurrences_ln:
  "10 \<notin> set n \<Longrightarrow> n \<noteq> [] \<Longrightarrow> occurrences n (ln x @ ys) = occurrences n x + occurrences n ys"
  using occurrences_split_at [of 10 n x ys] by (simp add: ln_def nl_def)

lemma occurrences_ln_last:
  "10 \<notin> set n \<Longrightarrow> n \<noteq> [] \<Longrightarrow> occurrences n (ln x) = occurrences n x"
  using occurrences_split_at [of 10 n x "[]"] by (simp add: ln_def nl_def)


lemma occurrences_butlast:
  assumes "s \<noteq> []" and "last s = 10" and "10 \<notin> set n" and "n \<noteq> []"
  shows "occurrences n (butlast s) = occurrences n s"
proof -
  from assms(1,2) have s: "s = butlast s @ [10]" by (rule ends_with_break)
  have "occurrences n (butlast s @ [10]) = occurrences n (butlast s)"
    using occurrences_split_at [OF assms(3,4), of "butlast s" "[]"] assms(4) by simp
  with s show ?thesis by simp
qed

lemma splitFirst_ln:
  assumes "10 \<notin> set n" and "n \<noteq> []"
  shows "splitFirst n (ln x @ ys) =
     (case splitFirst n x of
        Some (b, a) \<Rightarrow> Some (b, ln a @ ys)
      | None \<Rightarrow> map_option (\<lambda>(b, a). (ln x @ b, a)) (splitFirst n ys))"
proof (cases "splitFirst n x")
  case None
  then have "occurrences n x = 0" by (rule splitFirst_None)
  with assms None show ?thesis
    using splitFirst_skip [of 10 n x ys] by (simp add: ln_def nl_def)
next
  case (Some p)
  obtain b a where p: "p = (b, a)" by (cases p)
  from Some p have "splitFirst n (x @ (nl @ ys)) = Some (b, a @ (nl @ ys))"
    by (simp add: splitFirst_append)
  with Some p show ?thesis by (simp add: ln_def)
qed

lemma afterFirst_ln:
  assumes "10 \<notin> set n" and "n \<noteq> []"
  shows "afterFirst n (ln x @ ys) =
     (case afterFirst n x of Some a \<Rightarrow> Some (ln a @ ys) | None \<Rightarrow> afterFirst n ys)"
  unfolding afterFirst_def splitFirst_ln [OF assms]
  by (cases "splitFirst n x"; cases "splitFirst n ys") auto

lemma afterFirst_lines:
  assumes "s \<noteq> []" and "last s = 10" and "10 \<notin> set n" and "n \<noteq> []"
    and "occurrences n s = 0"
  shows "afterFirst n (s @ r) = afterFirst n r"
proof -
  from assms(1,2) have s: "s = butlast s @ [10]" by (rule ends_with_break)
  have "occurrences n (butlast s) = 0"
    using occurrences_butlast [OF assms(1-4)] assms(5) by simp
  then have "splitFirst n (butlast s @ 10 # r) =
      map_option (\<lambda>(b, a). (butlast s @ 10 # b, a)) (splitFirst n r)"
    by (rule splitFirst_skip [OF assms(3,4)])
  then have "afterFirst n ((butlast s @ [10]) @ r) = afterFirst n r"
    by (cases "splitFirst n r") (auto simp: afterFirst_def)
  with s show ?thesis by simp
qed

subsection \<open>The trimmed template\<close>

lemma trim_ends:
  "isWhiteSpace w \<Longrightarrow> \<not> isWhiteSpace c \<Longrightarrow> \<not> isWhiteSpace e \<Longrightarrow> isWhiteSpace v
   \<Longrightarrow> trim (w # c # m @ [e, v]) = c # m @ [e]"
  by (simp add: trim_def)

lemma shell1_start: "shell1 = 10 # 60 # drop 2 shell1"
  by (simp add: shell1_def asc_def nl_def ln_def)

lemma shell5_end: "shell5 = butlast (butlast shell5) @ [62, 10]"
  by (simp add: shell5_def asc_def nl_def ln_def butlast_append)

lemma renderTemplate_trimmed:
  "renderTemplate appHtml titleArg now =
     tl shell1 @
     ln (asc ''  <meta property=\"og:title\" content=\"'' @
         (case titleArg of None \<Rightarrow> defaultTitle | Some t \<Rightarrow> t) @ asc ''\">'') @
     shell2 @
     ln (asc ''  <title>'' @ (case titleArg of None \<Rightarrow> defaultTitle | Some t \<Rightarrow> t) @
         asc ''</title>'') @
     shell3 @
     ln (asc ''  '' @ mountOpen @ appHtml @ mountClose) @
     shell4 @
     ln (asc ''  <!-- SSR rendered at: '' @ toISOString now @ asc '' -->'') @
     butlast shell5"
proof -
  have ws: "isWhiteSpace 10" "\<not> isWhiteSpace 60" "\<not> isWhiteSpace 62"
    by (simp_all add: isWhiteSpace_def)
  obtain r where r: "shell1 = 10 # 60 # r" using shell1_start by blast
  obtain q where q: "shell5 = q @ [62, 10]" using shell5_end by blast
  define title where "title = (case titleArg of None \<Rightarrow> defaultTitle | Some t \<Rightarrow> t)"
  define m where
    "m = r @ ln (asc ''  <meta property=\"og:title\" content=\"'' @ title @ asc ''\">'') @
         shell2 @ ln (asc ''  <title>'' @ title @ asc ''</title>'') @ shell3 @
         ln (asc ''  '' @ mountOpen @ appHtml @ mountClose) @ shell4 @
         ln (asc ''  <!-- SSR rendered at: '' @ toISOString now @ asc '' -->'') @ q"
  have "trim (10 # 60 # m @ [62, 10]) = 60 # m @ [62]"
    by (rule trim_ends [OF ws(1) ws(2) ws(3) ws(1)])
  then show ?thesis
    unfolding renderTemplate_def Let_def r q title_def [symmetric]
    by (simp add: butlast_append m_def)
qed

subsection \<open>The blocks of the template\<close>

lemmas comment_defs =
  metaComment_def seoComment_def openGraphComment_def stylesheetComment_def
  preloadComment_def mountPointComment_def debugComment_def scriptComment_def

lemma mountOpen_units: "mountOpen = [60, 100, 105, 118, 32, 105, 100, 61, 34, 114, 111, 111, 116, 34, 62]"
  by (simp add: mountOpen_def mountId_def asc_def)

lemma mountClose_units: "mountClose = [60, 47, 100, 105, 118, 62]"
  by (simp add: mountClose_def asc_def)

lemma mountOpen_needle: "10 \<notin> set mountOpen" "mountOpen \<noteq> []"
  by (simp_all add: mountOpen_units)

lemma mountClose_needle: "10 \<notin> set mountClose" "mountClose \<noteq> []"
  by (simp_all add: mountClose_units)

lemma title_needles:
  "10 \<notin> set (asc ''<title>'')" "asc ''<title>'' \<noteq> []"
  "10 \<notin> set (asc ''</title>'')" "asc ''</title>'' \<noteq> []"
  by (simp_all add: asc_def)

lemma shell_lines:
  "shell1 \<noteq> []" "last shell1 = 10" "shell2 \<noteq> []" "last shell2 = 10"
  "shell3 \<noteq> []" "last shell3 = 10" "shell4 \<noteq> []" "last shell4 = 10"
  "shell5 \<noteq> []" "last shell5 = 10"
  by (simp_all add: shell1_def shell2_def shell3_def shell4_def shell5_def comment_defs
      ln_not_Nil last_ln nl_def)

lemmas count_lines = occurrences_ln occurrences_ln_last occurrences_nl

lemma mountOpen_shell:
  "occurrences mountOpen shell1 = 0" "occurrences mountOpen shell2 = 0"
  "occurrences mountOpen shell3 = 0" "occurrences mountOpen shell4 = 0"
  "occurrences mountOpen shell5 = 0"
  by (simp_all add: shell1_def shell2_def shell3_def shell4_def shell5_def comment_defs
      mountOpen_units count_lines asc_def)

lemma titleOpen_shell:
  "occurrences (asc ''<title>'') shell1 = 0" "occurrences (asc ''<title>'') shell2 = 0"
  by (simp_all add: shell1_def shell2_def comment_defs count_lines asc_def)


lemma head_lines: "tl shell1 \<noteq> []" "last (tl shell1) = 10"
  by (simp_all add: shell1_def comment_defs ln_not_Nil last_ln nl_def)

lemma mountOpen_head: "occurrences mountOpen (tl shell1) = 0"
  by (simp add: shell1_def comment_defs mountOpen_units count_lines asc_def nl_def)

lemma titleOpen_head: "occurrences (asc ''<title>'') (tl shell1) = 0"
  by (simp add: shell1_def comment_defs count_lines asc_def nl_def)




subsection \<open>The four filled-in lines\<close>

lemma mountLine_after:
  "afterFirst mountOpen (asc ''  '' @ mountOpen @ appHtml @ mountClose) = Some (appHtml @ mountClose)"
  by (simp add: afterFirst_def mountOpen_units asc_def)



lemma pageTitle_lines:
  "occurrences mountOpen (asc ''  <meta property=\"og:title\" content=\"'' @ pageTitle @ asc ''\">'') = 0"
  "occurrences mountOpen (asc ''  <title>'' @ pageTitle @ asc ''</title>'') = 0"
  by (simp_all add: mountOpen_units pageTitle_def asc_def)

lemma occurrences_0_afterFirst: "occurrences n s = 0 \<Longrightarrow> n \<noteq> [] \<Longrightarrow> afterFirst n s = None"
  by (induction s) (auto simp: afterFirst_def split: if_splits)


lemma renderTemplate_afterMount:
  assumes "occurrences mountOpen (asc ''  <meta property=\"og:title\" content=\"'' @ t @ asc ''\">'') = 0"
    and "occurrences mountOpen (asc ''  <title>'' @ t @ asc ''</title>'') = 0"
  shows "afterFirst mountOpen (renderTemplate appHtml (Some t) now) =
     Some (ln (appHtml @ mountClose) @ shell4 @
           ln (asc ''  <!-- SSR rendered at: '' @ toISOString now @ asc '' -->'') @
           butlast shell5)"
  by (simp add: renderTemplate_trimmed
      afterFirst_lines [OF head_lines mountOpen_needle mountOpen_head]
      afterFirst_lines [OF shell_lines(3,4) mountOpen_needle mountOpen_shell(2)]
      afterFirst_lines [OF shell_lines(5,6) mountOpen_needle mountOpen_shell(3)]
      afterFirst_ln [OF mountOpen_needle]
      occurrences_0_afterFirst [OF assms(1) mountOpen_needle(2)]
      occurrences_0_afterFirst [OF assms(2) mountOpen_needle(2)]
      mountLine_after)

lemma titleLine_after:
  "afterFirst (asc ''<title>'') (asc ''  <title>'' @ t @ asc ''</title>'') = Some (t @ asc ''</title>'')"
  by (simp add: afterFirst_def asc_def)

lemma renderTemplate_afterTitle:
  assumes "occurrences (asc ''<title>'') (asc ''  <meta property=\"og:title\" content=\"'' @ t @ asc ''\">'') = 0"
  shows "afterFirst (asc ''<title>'') (renderTemplate appHtml (Some t) now) =
     Some (ln (t @ asc ''</title>'') @ shell3 @
           ln (asc ''  '' @ mountOpen @ appHtml @ mountClose) @ shell4 @
           ln (asc ''  <!-- SSR rendered at: '' @ toISOString now @ asc '' -->'') @
           butlast shell5)"
  by (simp add: renderTemplate_trimmed
      afterFirst_lines [OF head_lines title_needles(1,2) titleOpen_head]
      afterFirst_lines [OF shell_lines(3,4) title_needles(1,2) titleOpen_shell(2)]
      afterFirst_ln [OF title_needles(1,2)]
      occurrences_0_afterFirst [OF assms title_needles(2)]
      titleLine_after)

subsection \<open>An element that is there is found\<close>

lemma startsWith_eq: "startsWith s n \<Longrightarrow> s = n @ drop (length n) s"
  by (induction s n rule: startsWith.induct) auto

lemma elementText_append:
  "elementText opn cls s = Some x \<Longrightarrow> elementText opn cls (s @ t) = Some x"
  by (auto simp: elementText_def afterFirst_def splitFirst_append split: option.splits)

lemma splitFirst_found:
  "\<exists>x y. splitFirst n (a @ n @ b) = Some (x, y) \<and> a @ n @ b = x @ n @ y \<and> length x \<le> length a"
proof (induction a)
  case Nil
  show ?case
  proof (cases "n @ b")
    case Nil
    then show ?thesis by simp
  next
    case (Cons c s)
    have st: "startsWith (n @ b) n" by (rule startsWith_self)
    then have "n @ b = n @ drop (length n) (n @ b)" by (rule startsWith_eq)
    with st Cons show ?thesis by simp
  qed
next
  case (Cons c a)
  show ?case
  proof (cases "startsWith (c # a @ n @ b) n")
    case True
    then have "c # a @ n @ b = n @ drop (length n) (c # a @ n @ b)" by (rule startsWith_eq)
    with True show ?thesis by simp
  next
    case False
    from Cons.IH obtain x y where "splitFirst n (a @ n @ b) = Some (x, y)"
      and "a @ n @ b = x @ n @ y" and "length x \<le> length a" by blast
    with False show ?thesis by simp
  qed
qed

lemma elementText_found:
  "\<exists>t. elementText opn cls (a @ opn @ m @ cls @ b) = Some t"
proof -
  obtain x y where s: "splitFirst opn (a @ opn @ (m @ cls @ b)) = Some (x, y)"
    and e: "a @ opn @ (m @ cls @ b) = x @ opn @ y" and l: "length x \<le> length a"
    using splitFirst_found [of opn a "m @ cls @ b"] by blast
  from e l have "y = drop (length x + length opn) (a @ opn) @ (m @ cls @ b)"
    by (metis (no_types, lifting) append.assoc append_eq_conv_conj drop_append length_append
        add_le_cancel_right diff_is_0_eq drop0)
  then have "\<exists>a'. y = a' @ cls @ b" by (metis append.assoc)
  then obtain a' where "y = a' @ cls @ b" ..
  then obtain p q where "splitFirst cls y = Some (p, q)"
    using splitFirst_found [of cls a' b] by auto
  with s show ?thesis by (simp add: elementText_def afterFirst_def)
qed

subsection \<open>The document and the error page\<close>

lemma endsWith_append: "endsWith (a @ n) n"
  by (simp add: endsWith_def startsWith_self)

lemma foot_closes: "butlast shell5 =
    (ln (asc ''  '') @ scriptComment @ ln (asc ''  <script src=\"/bundle.js\"></script>'') @
     ln (asc ''</body>'')) @ asc ''</html>''"
  by (simp add: shell5_def butlast_append ln_not_Nil butlast_ln)

lemma renderTemplate_complete:
  "startsWith (renderTemplate appHtml titleArg now) (asc ''<!DOCTYPE html>'') \<and>
   endsWith (renderTemplate appHtml titleArg now) (asc ''</html>'')"
proof
  have "tl shell1 = asc ''<!DOCTYPE html>'' @ drop 15 (tl shell1)"
    by (simp add: shell1_def nl_def ln_def asc_def)
  then obtain r where "tl shell1 = asc ''<!DOCTYPE html>'' @ r" ..
  then show "startsWith (renderTemplate appHtml titleArg now) (asc ''<!DOCTYPE html>'')"
    by (simp add: renderTemplate_trimmed startsWith_self)
next
  obtain q where q: "butlast shell5 = q @ asc ''</html>''" using foot_closes by blast
  define p where "p = tl shell1 @
     ln (asc ''  <meta property=\"og:title\" content=\"'' @
         (case titleArg of None \<Rightarrow> defaultTitle | Some t \<Rightarrow> t) @ asc ''\">'') @
     shell2 @
     ln (asc ''  <title>'' @ (case titleArg of None \<Rightarrow> defaultTitle | Some t \<Rightarrow> t) @
         asc ''</title>'') @
     shell3 @
     ln (asc ''  '' @ mountOpen @ appHtml @ mountClose) @
     shell4 @
     ln (asc ''  <!-- SSR rendered at: '' @ toISOString now @ asc '' -->'') @ q"
  have "renderTemplate appHtml titleArg now = p @ asc ''</html>''"
    by (simp add: renderTemplate_trimmed q p_def)
  then show "endsWith (renderTemplate appHtml titleArg now) (asc ''</html>'')"
    by (simp add: endsWith_append)
qed

lemma renderTemplate_holds_markup:
  "mountPointHolds (renderTemplate appHtml (Some pageTitle) now) appHtml"
proof -
  have "startsWith ((appHtml @ mountClose) @ r) (appHtml @ mountClose)" for r
    by (rule startsWith_self)
  then show ?thesis
    by (simp add: mountPointHolds_def renderTemplate_afterMount [OF pageTitle_lines] ln_def)
qed

lemma errorPage_not_template: "errorPage msg \<noteq> renderTemplate appHtml titleArg now"
proof -
  have "hd (errorPage msg) = 10" by (simp add: errorPage_def nl_def)
  moreover have "tl shell1 = 60 # drop 1 (tl shell1)"
    by (simp add: shell1_def nl_def ln_def asc_def)
  then obtain r where "tl shell1 = 60 # r" ..
  then have "hd (renderTemplate appHtml titleArg now) = 60"
    by (simp add: renderTemplate_trimmed)
  ultimately show ?thesis by auto
qed

lemma errorPage_fixed:
  "errorPage msg = take 188 (errorPage []) @ msg @ drop 188 (errorPage [])"
  by (simp add: errorPage_def ln_def nl_def asc_def)

lemma unmatched_Routes:
  assumes "\<not> m (asc ''/'') url" and "\<not> m (asc ''/about'') url" and "\<not> m (asc ''/counter'') url"
  shows "Routes m url routeTable = [NotFound]"
  using assms by (simp add: routeTable_def asc_def)

subsection \<open>What React writes for the application\<close>


lemma NotFound_markup: "reactRender comps loc NotFound = Inr notFoundHtml"
  by (simp add: NotFound_def notFoundHtml_def asc_def escapeHtml_def escapeUnit_def
      attributeName_def hyphenate_def)


lemma App_markup:
  assumes "comps Header url = Inr header" and "comps Footer url = Inr footer"
    and "reactRenderAll comps url views = Inr view"
  shows "reactRender comps []
      (Router url
        (Host (asc ''div'') [(asc ''className'', Str (asc ''app''))]
           [Component Header, Host (asc ''main'') [] views, Component Footer])) =
     Inr (appHtmlAround header view footer)"
  using assms
  by (simp add: appHtmlAround_def asc_def escapeHtml_def escapeUnit_def attributeName_def)



lemma handle_rendered:
  assumes "renderToString srv (StaticRouter (matchPath srv) url) = Inr appHtml"
  shows "response (handle srv url) =
      \<lparr>status = 200, body = renderTemplate appHtml (Some pageTitle) (today srv)\<rparr>"
    and "renderCalls (events (handle srv url)) = [StaticRouter (matchPath srv) url]"
  using assms by (simp_all add: handle_def Let_def)


lemma renderTemplate_inj:
  assumes "renderTemplate a (Some pageTitle) now = renderTemplate b (Some pageTitle) now"
  shows "a = b"
proof -
  from assms have "afterFirst mountOpen (renderTemplate a (Some pageTitle) now) =
      afterFirst mountOpen (renderTemplate b (Some pageTitle) now)" by simp
  then show ?thesis
    by (simp add: renderTemplate_afterMount [OF pageTitle_lines] ln_def)
qed

subsection \<open>The shape of the error page\<close>

lemma trim_around:
  assumes "\<And>x. x \<in> set a \<Longrightarrow> isWhiteSpace x" and "\<And>x. x \<in> set b \<Longrightarrow> isWhiteSpace x"
    and "\<not> isWhiteSpace c" and "\<not> isWhiteSpace e"
  shows "trim (a @ c # m @ e # b) = c # m @ [e]"
proof -
  have "dropWhile isWhiteSpace (a @ c # m @ e # b) = c # m @ e # b"
    using assms(1,3) by (simp add: dropWhile_append2)
  moreover have "dropWhile isWhiteSpace (rev b @ e # rev m @ [c]) =
      dropWhile isWhiteSpace (e # rev m @ [c])"
    by (rule dropWhile_append2) (simp add: assms(2))
  then have "dropWhile isWhiteSpace (rev b @ e # rev m @ [c]) = e # rev m @ [c]"
    using assms(4) by simp
  ultimately show ?thesis by (simp add: trim_def)
qed

lemma errorPage_trimmed:
  "\<exists>m. trim (errorPage msg) = asc ''<!DOCTYPE html>'' @ m @ asc ''</html>''"
proof -
  have top: "take 188 (errorPage []) =
      [10, 32, 32, 32, 32, 32, 32] @ 60 # asc ''!DOCTYPE html>'' @ drop 22 (take 188 (errorPage []))"
    by (simp add: errorPage_def ln_def nl_def asc_def)
  have foot: "drop 188 (errorPage []) =
      take 29 (drop 188 (errorPage [])) @ asc ''</html'' @ 62 # [10, 32, 32, 32, 32]"
    by (simp add: errorPage_def ln_def nl_def asc_def)
  define p where "p = drop 22 (take 188 (errorPage []))"
  define q where "q = take 29 (drop 188 (errorPage []))"
  have "errorPage msg = [10, 32, 32, 32, 32, 32, 32] @ 60 #
      (asc ''!DOCTYPE html>'' @ p @ msg @ q @ asc ''</html'') @ 62 # [10, 32, 32, 32, 32]"
    using errorPage_fixed [of msg] top foot by (simp add: p_def q_def)
  moreover have "trim ([10, 32, 32, 32, 32, 32, 32] @ 60 #
      (asc ''!DOCTYPE html>'' @ p @ msg @ q @ asc ''</html'') @ 62 # [10, 32, 32, 32, 32]) =
      60 # (asc ''!DOCTYPE html>'' @ p @ msg @ q @ asc ''</html'') @ [62]"
    by (rule trim_around) (auto simp: isWhiteSpace_def)
  moreover have "60 # (asc ''!DOCTYPE html>'' @ p @ msg @ q @ asc ''</html'') @ [62] =
      asc ''<!DOCTYPE html>'' @ (p @ msg @ q) @ asc ''</html>''"
    by (simp add: asc_def)
  ultimately show ?thesis by metis
qed

lemma errorPage_complete:
  "startsWith (trim (errorPage msg)) (asc ''<!DOCTYPE html>'') \<and>
   endsWith (trim (errorPage msg)) (asc ''</html>'')"
proof -
  obtain m where m: "trim (errorPage msg) = asc ''<!DOCTYPE html>'' @ m @ asc ''</html>''"
    using errorPage_trimmed by blast
  have "endsWith ((asc ''<!DOCTYPE html>'' @ m) @ asc ''</html>'') (asc ''</html>'')"
    by (rule endsWith_append)
  then show ?thesis unfolding m by (simp add: startsWith_self)
qed

lemma errorPage_title:
  "titleText (errorPage msg) = Some [0x670D, 0x52A1, 0x5668, 0x9519, 0x8BEF]"
  by (simp add: titleText_def elementText_def afterFirst_def errorPage_def asc_def nl_def
      splitFirst_ln)

lemma startsWith_same_prefix: "startsWith (a @ s) (a @ n) = startsWith s n"
  by (induction a) auto

lemma errorPage_pre: "preHolds (errorPage msg) msg"
  by (simp add: preHolds_def afterFirst_def errorPage_def asc_def nl_def splitFirst_ln ln_def [of "msg @ _"] startsWith_same_prefix)

lemma errorPage_heading:
  "elementText (asc ''<h1>'') (asc ''</h1>'') (errorPage msg) =
     Some [0x670D, 0x52A1, 0x5668, 0x6E32, 0x67D3, 0x9519, 0x8BEF]"
  by (simp add: elementText_def afterFirst_def errorPage_def asc_def nl_def splitFirst_ln)

subsection \<open>The mount point element and the timestamp\<close>

lemma untilClose_length: "untilClose d s = Some x \<Longrightarrow> length mountClose \<le> length s"
proof (induction s arbitrary: d x)
  case Nil
  then show ?case by simp
next
  case (Cons c s)
  show ?case
  proof (cases "startsWith (c # s) mountClose")
    case True
    then show ?thesis by (rule startsWith_length)
  next
    case False
    with Cons.prems obtain d' x' where "untilClose d' s = Some x'"
      by (auto split: if_splits)
    then have "length mountClose \<le> length s" by (rule Cons.IH)
    then show ?thesis by simp
  qed
qed

lemma startsWith_append_iff:
  "length n \<le> length s \<Longrightarrow> startsWith (s @ t) n = startsWith s n"
  using startsWith_short [of s t n] startsWith_append [of s n t] by blast

lemma divOpens_append: "5 \<le> length s \<Longrightarrow> divOpens (s @ t) = divOpens s"
  by (simp add: divOpens_def startsWith_append_iff asc_def)

lemma untilClose_append: "untilClose d s = Some x \<Longrightarrow> untilClose d (s @ t) = Some x"
proof (induction s arbitrary: d x)
  case Nil
  then show ?case by simp
next
  case (Cons c s)
  have six: "length mountClose = 6" by (simp add: mountClose_units)
  show ?case
  proof (cases "startsWith (c # s) mountClose")
    case True
    then have "startsWith ((c # s) @ t) mountClose" by (rule startsWith_append)
    with True Cons show ?thesis by (auto split: nat.splits)
  next
    case False
    with Cons.prems obtain d' x' where inner: "untilClose d' s = Some x'"
      by (auto split: if_splits)
    then have len: "length mountClose \<le> length s" by (rule untilClose_length)
    then have "startsWith ((c # s) @ t) mountClose = startsWith (c # s) mountClose"
      by (intro startsWith_append_iff) simp
    moreover from len six have "divOpens ((c # s) @ t) = divOpens (c # s)"
      by (intro divOpens_append) simp
    ultimately show ?thesis
      using False Cons by (auto split: if_splits)
  qed
qed

lemma title_line_no_mount:
  assumes "60 \<notin> set t"
  shows "occurrences mountOpen (asc ''  <meta property=\"og:title\" content=\"'' @ t @ asc ''\">'') = 0"
    and "occurrences mountOpen (asc ''  <title>'' @ t @ asc ''</title>'') = 0"
proof -
  have "60 \<notin> set (t @ asc ''\">'')" using assms by (simp add: asc_def)
  then have "occurrences mountOpen (t @ asc ''\">'') = 0"
    unfolding mountOpen_units by (rule occurrences_no_head)
  then show "occurrences mountOpen (asc ''  <meta property=\"og:title\" content=\"'' @ t @ asc ''\">'') = 0"
    by (simp add: mountOpen_units asc_def)
  have split: "occurrences [60, 100, 105, 118, 32, 105, 100, 61, 34, 114, 111, 111, 116, 34, 62]
        (xs @ 60 # ys) =
      occurrences [60, 100, 105, 118, 32, 105, 100, 61, 34, 114, 111, 111, 116, 34, 62] xs +
      occurrences [60, 100, 105, 118, 32, 105, 100, 61, 34, 114, 111, 111, 116, 34, 62]
        (60 # ys)" for xs ys :: jsstring
    by (rule occurrences_before_fresh) simp
  have "occurrences mountOpen t = 0"
    unfolding mountOpen_units using assms by (rule occurrences_no_head)
  then show "occurrences mountOpen (asc ''  <title>'' @ t @ asc ''</title>'') = 0"
    by (simp add: mountOpen_units asc_def split)
qed

lemma renderTemplate_default: "renderTemplate appHtml None now = renderTemplate appHtml (Some defaultTitle) now"
  by (simp add: renderTemplate_def)

lemma renderTemplate_mountElement:
  assumes "60 \<notin> set (case titleArg of None \<Rightarrow> defaultTitle | Some t \<Rightarrow> t)"
    and "balancedDivs appHtml"
  shows "mountElement (renderTemplate appHtml titleArg now) = Some appHtml"
proof -
  define title where "title = (case titleArg of None \<Rightarrow> defaultTitle | Some t \<Rightarrow> t)"
  have same: "renderTemplate appHtml titleArg now = renderTemplate appHtml (Some title) now"
    by (cases titleArg) (simp_all add: title_def renderTemplate_default)
  from assms(1) have "60 \<notin> set title" by (simp add: title_def)
  note lines = title_line_no_mount [OF this]
  from assms(2) have "untilClose 0 ((appHtml @ mountClose) @ nl @ shell4 @
           ln (asc ''  <!-- SSR rendered at: '' @ toISOString now @ asc '' -->'') @
           butlast shell5) = Some appHtml"
    unfolding balancedDivs_def by (rule untilClose_append)
  then show ?thesis
    unfolding same by (simp add: mountElement_def renderTemplate_afterMount [OF lines] ln_def)
qed

section \<open>The claims\<close>

subsection \<open>The template assembler\<close>

text \<open>
  Claim C6. For the markup \<open><p>X</p>\<close> and the title \<open>T\<close>, whatever the clock reads, the
  text of the \<open><title>\<close> element of the assembled document is exactly \<open>T\<close> and the
  content of the mount point element is exactly \<open><p>X</p>\<close>: the markup is neither
  escaped nor altered.
\<close>

theorem template_title_and_markup_verbatim:
  "titleText (renderTemplate (asc ''<p>X</p>'') (Some (asc ''T'')) now) = Some (asc ''T'') \<and>
   mountContent (renderTemplate (asc ''<p>X</p>'') (Some (asc ''T'')) now) = Some (asc ''<p>X</p>'')"
proof
  have "occurrences (asc ''<title>'') (asc ''  <meta property=\"og:title\" content=\"'' @ asc ''T'' @ asc ''\">'') = 0"
    by (simp add: asc_def)
  then have "afterFirst (asc ''<title>'') (renderTemplate (asc ''<p>X</p>'') (Some (asc ''T'')) now) =
     Some (ln (asc ''T'' @ asc ''</title>'') @ shell3 @
           ln (asc ''  '' @ mountOpen @ asc ''<p>X</p>'' @ mountClose) @ shell4 @
           ln (asc ''  <!-- SSR rendered at: '' @ toISOString now @ asc '' -->'') @
           butlast shell5)"
    by (rule renderTemplate_afterTitle)
  moreover have "splitFirst (asc ''</title>'') (asc ''T'' @ asc ''</title>'') = Some (asc ''T'', [])"
    by (simp add: asc_def)
  ultimately show "titleText (renderTemplate (asc ''<p>X</p>'') (Some (asc ''T'')) now) = Some (asc ''T'')"
    by (simp add: titleText_def elementText_def splitFirst_ln [OF title_needles(3,4)])
next
  have "occurrences mountOpen (asc ''  <meta property=\"og:title\" content=\"'' @ asc ''T'' @ asc ''\">'') = 0"
    and "occurrences mountOpen (asc ''  <title>'' @ asc ''T'' @ asc ''</title>'') = 0"
    by (simp_all add: mountOpen_units asc_def)
  then have "afterFirst mountOpen (renderTemplate (asc ''<p>X</p>'') (Some (asc ''T'')) now) =
     Some (ln (asc ''<p>X</p>'' @ mountClose) @ shell4 @
           ln (asc ''  <!-- SSR rendered at: '' @ toISOString now @ asc '' -->'') @
           butlast shell5)"
    by (rule renderTemplate_afterMount)
  moreover have "splitFirst mountClose (asc ''<p>X</p>'' @ mountClose) = Some (asc ''<p>X</p>'', [])"
    by (simp add: mountClose_units asc_def)
  ultimately show "mountContent (renderTemplate (asc ''<p>X</p>'') (Some (asc ''T'')) now) = Some (asc ''<p>X</p>'')"
    by (simp add: mountContent_def elementText_def splitFirst_ln [OF mountClose_needle])
qed

text \<open>
  Claim C7. Two runs of the template assembler on the same markup and title differ at
  most in the timestamp of the debug comment. For every title there are three fixed
  texts such that the document is, for every markup and every clock reading, the first
  text, the mount point element as the template writes it (opening tag, markup, closing
  tag), the second text, the timestamp and the third text: the timestamp stands after
  the closing tag of the mount point. Read with nested \<open><div>\<close> elements counted, the
  content of the mount point element is the markup itself for every clock reading, when
  the markup has balanced \<open><div>\<close> elements and the title has no \<open><\<close>; and read up to
  the first \<open></div>\<close> it is the same for every clock reading, for every markup and title.
\<close>

theorem template_differs_only_in_timestamp:
  "(\<exists>head gap after. \<forall>appHtml now.
      renderTemplate appHtml titleArg now =
        head @ mountOpen @ appHtml @ mountClose @ gap @ toISOString now @ after) \<and>
   (\<forall>appHtml now.
      60 \<notin> set (case titleArg of None \<Rightarrow> defaultTitle | Some t \<Rightarrow> t) \<longrightarrow>
      balancedDivs appHtml \<longrightarrow>
      mountElement (renderTemplate appHtml titleArg now) = Some appHtml) \<and>
   (\<forall>appHtml now later.
      mountContent (renderTemplate appHtml titleArg now) =
      mountContent (renderTemplate appHtml titleArg later))"
proof (intro conjI)
  define title where "title = (case titleArg of None \<Rightarrow> defaultTitle | Some t \<Rightarrow> t)"
  define top where
    "top = tl shell1 @ ln (asc ''  <meta property=\"og:title\" content=\"'' @ title @ asc ''\">'') @
       shell2 @ ln (asc ''  <title>'' @ title @ asc ''</title>'') @ shell3 @ asc ''  ''"
  define mid where "mid = nl @ shell4 @ asc ''  <!-- SSR rendered at: ''"
  define foot where "foot = asc '' -->'' @ nl @ butlast shell5"
  have doc: "renderTemplate appHtml titleArg now =
      top @ mountOpen @ appHtml @ mountClose @ mid @ toISOString now @ foot" for appHtml now
    by (simp add: renderTemplate_trimmed top_def mid_def foot_def title_def ln_def)
  then show "\<exists>head gap after. \<forall>appHtml now.
      renderTemplate appHtml titleArg now =
        head @ mountOpen @ appHtml @ mountClose @ gap @ toISOString now @ after"
    by blast
  show "\<forall>appHtml now.
      60 \<notin> set (case titleArg of None \<Rightarrow> defaultTitle | Some t \<Rightarrow> t) \<longrightarrow>
      balancedDivs appHtml \<longrightarrow>
      mountElement (renderTemplate appHtml titleArg now) = Some appHtml"
    using renderTemplate_mountElement by blast
  have "mountContent (renderTemplate appHtml titleArg now) =
      mountContent (renderTemplate appHtml titleArg later)" for appHtml now later
  proof -
    obtain t where "elementText mountOpen mountClose
        (top @ mountOpen @ appHtml @ mountClose @ mid) = Some t"
      using elementText_found by blast
    then have "elementText mountOpen mountClose
        ((top @ mountOpen @ appHtml @ mountClose @ mid) @ toISOString clock @ foot) = Some t"
      for clock
      by (rule elementText_append)
    then show ?thesis by (simp add: doc mountContent_def)
  qed
  then show "\<forall>appHtml now later.
      mountContent (renderTemplate appHtml titleArg now) =
      mountContent (renderTemplate appHtml titleArg later)"
    by blast
qed

theorem template_differs_only_in_timestamp_witness:
  "60 \<notin> set defaultTitle \<and>
   balancedDivs (asc ''<div class=\"app\"><div>x</div></div>'') \<and>
   mountElement (renderTemplate (asc ''<div class=\"app\"><div>x</div></div>'') None noon) =
     Some (asc ''<div class=\"app\"><div>x</div></div>'') \<and>
   mountElement (renderTemplate (asc ''<div class=\"app\"><div>x</div></div>'') None evening) =
     Some (asc ''<div class=\"app\"><div>x</div></div>'') \<and>
   mountContent (renderTemplate (asc ''<div class=\"app\"><div>x</div></div>'') None noon) \<noteq>
     Some (asc ''<div class=\"app\"><div>x</div></div>'')"
proof -
  have t: "60 \<notin> set (case None of None \<Rightarrow> defaultTitle | Some t \<Rightarrow> t)"
    by (simp add: defaultTitle_def asc_def)
  have b: "balancedDivs (asc ''<div class=\"app\"><div>x</div></div>'')"
    by (simp add: balancedDivs_def divOpens_def mountClose_units asc_def)
  have first: "mountContent (renderTemplate (asc ''<div class=\"app\"><div>x</div></div>'') None noon) =
      Some (asc ''<div class=\"app\"><div>x'')"
  proof -
    have "splitFirst mountClose (asc ''<div class=\"app\"><div>x</div></div>'' @ mountClose) =
        Some (asc ''<div class=\"app\"><div>x'', asc ''</div>'' @ mountClose)"
      by (simp add: mountClose_units asc_def)
    then show ?thesis
      by (simp add: mountContent_def elementText_def renderTemplate_default
          renderTemplate_afterMount [OF title_line_no_mount] defaultTitle_def
          splitFirst_ln [OF mountClose_needle] asc_def [of "''React SSR Demo''"])
  qed
  have "asc ''<div class=\"app\"><div>x'' \<noteq> asc ''<div class=\"app\"><div>x</div></div>''"
    by (simp add: asc_def)
  with first t b template_differs_only_in_timestamp [of None] show ?thesis
    by auto
qed

subsection \<open>The render server\<close>



text \<open>
  Claim C3, as amended. The claim sends every response through the template assembler;
  the 500 response is a literal of the handler's own. What holds: when the render
  returns a markup the response is 200 with the assembled document of that markup and
  the page title; when it throws the response is 500 with the error page, and the error
  page is no output of the template assembler, whatever markup, title and clock.
\<close>

theorem responses_by_outcome:
  "(case renderToString srv (StaticRouter (matchPath srv) url) of
      Inr appHtml \<Rightarrow>
        response (handle srv url) =
          \<lparr>status = 200, body = renderTemplate appHtml (Some pageTitle) (today srv)\<rparr>
    | Inl e \<Rightarrow>
        response (handle srv url) = \<lparr>status = 500, body = errorPage (message e)\<rparr> \<and>
        (\<forall>appHtml titleArg now.
           errorPage (message e) \<noteq> renderTemplate appHtml titleArg now))"
  by (simp add: handle_def Let_def errorPage_not_template split: sum.splits)

text \<open>
  The claim C3 as stated fails where the render throws: the body is not the template
  assembler's output for any markup, title and clock.
\<close>

theorem every_response_templated_counterexample:
  "\<not> (\<exists>appHtml titleArg now.
        body (response (handle throwingServer (asc ''/about''))) =
        renderTemplate appHtml titleArg now)"
  by (simp add: handle_def throwingServer_def errorPage_not_template)

text \<open>
  Claim C4. When the render primitive throws (an \<open>Error\<close> object, see \<open>exn\<close>), the handler
  answers with status 500 and the error page of its \<open>catch\<close> block. The page is a small
  HTML document, fixed but for the error's message: trimmed, it starts with the doctype
  and ends with \<open></html>\<close>; its title is the text "server error" and its heading the
  text "server render error" (both in Chinese), and the message stands in its
  \<open><pre>\<close> element. The handler has called the render primitive once, for the
  application at the request's URL, and has logged the error once; the body is no
  output of the template assembler, so nothing was rendered in its place.
\<close>

theorem render_failure_answers_500:
  assumes "renderToString srv (StaticRouter (matchPath srv) url) = Inl e"
  shows "response (handle srv url) = \<lparr>status = 500, body = errorPage (message e)\<rparr> \<and>
         renderCalls (events (handle srv url)) = [StaticRouter (matchPath srv) url] \<and>
         errorsLogged (events (handle srv url)) = [e] \<and>
         (\<forall>appHtml titleArg now.
            body (response (handle srv url)) \<noteq> renderTemplate appHtml titleArg now) \<and>
         (\<exists>before after. \<forall>msg. errorPage msg = before @ msg @ after) \<and>
         startsWith (trim (body (response (handle srv url)))) (asc ''<!DOCTYPE html>'') \<and>
         endsWith (trim (body (response (handle srv url)))) (asc ''</html>'') \<and>
         titleText (body (response (handle srv url))) =
           Some [0x670D, 0x52A1, 0x5668, 0x9519, 0x8BEF] \<and>
         elementText (asc ''<h1>'') (asc ''</h1>'') (body (response (handle srv url))) =
           Some [0x670D, 0x52A1, 0x5668, 0x6E32, 0x67D3, 0x9519, 0x8BEF] \<and>
         preHolds (body (response (handle srv url))) (message e)"
proof -
  have "\<exists>before after. \<forall>msg. errorPage msg = before @ msg @ after"
    using errorPage_fixed by blast
  moreover from assms have "response (handle srv url) =
      \<lparr>status = 500, body = errorPage (message e)\<rparr>"
    and "renderCalls (events (handle srv url)) = [StaticRouter (matchPath srv) url]"
    and "errorsLogged (events (handle srv url)) = [e]"
    by (simp_all add: handle_def)
  ultimately show ?thesis
    using errorPage_complete [of "message e"] errorPage_title [of "message e"]
      errorPage_heading [of "message e"] errorPage_pre [of "message e"]
    by (simp add: errorPage_not_template)
qed

theorem render_failure_answers_500_witness:
  "response (handle throwingServer (asc ''/about'')) =
     \<lparr>status = 500, body = errorPage (asc ''boom'')\<rparr> \<and>
   renderCalls (events (handle throwingServer (asc ''/about''))) =
     [StaticRouter exactPath (asc ''/about'')] \<and>
   errorsLogged (events (handle throwingServer (asc ''/about''))) = [Error (asc ''boom'')] \<and>
   startsWith (trim (body (response (handle throwingServer (asc ''/about'')))))
     (asc ''<!DOCTYPE html>'') \<and>
   endsWith (trim (body (response (handle throwingServer (asc ''/about''))))) (asc ''</html>'') \<and>
   preHolds (body (response (handle throwingServer (asc ''/about'')))) (asc ''boom'')"
proof -
  have "renderToString throwingServer (StaticRouter (matchPath throwingServer) (asc ''/about'')) =
      Inl (Error (asc ''boom''))"
    by (simp add: throwingServer_def)
  from render_failure_answers_500 [OF this] show ?thesis
    by (auto simp: throwingServer_def)
qed

text \<open>
  Claim C5. The render primitive is React's, and the header and the footer render at
  the request's location. Then for every request whose location matches none of \<open>/\<close>,
  \<open>/about\<close> and \<open>/counter\<close>, the route chosen is the fallback, whose view \<open>NotFound\<close>
  React writes as \<open>notFoundHtml\<close>; the request takes the normal path through the handler
  (one call of the render primitive, then the template), and the response has status
  200 and the assembled document, complete from doctype to \<open></html>\<close>, whose mount point
  holds the application's markup with the markup of \<open>NotFound\<close> inside \<open><main>\<close>.
\<close>

theorem unmatched_path_answers_NotFound:
  assumes "renderToString srv = reactRender comps []"
    and "\<not> matchPath srv (asc ''/'') url"
    and "\<not> matchPath srv (asc ''/about'') url"
    and "\<not> matchPath srv (asc ''/counter'') url"
    and "comps Header url = Inr header"
    and "comps Footer url = Inr footer"
  shows "Routes (matchPath srv) url routeTable = [NotFound] \<and>
         reactRender comps url NotFound = Inr notFoundHtml \<and>
         renderCalls (events (handle srv url)) = [StaticRouter (matchPath srv) url] \<and>
         response (handle srv url) =
           \<lparr>status = 200,
            body = renderTemplate (appHtmlAround header notFoundHtml footer) (Some pageTitle)
                     (today srv)\<rparr> \<and>
         startsWith (body (response (handle srv url))) (asc ''<!DOCTYPE html>'') \<and>
         endsWith (body (response (handle srv url))) (asc ''</html>'') \<and>
         mountPointHolds (body (response (handle srv url)))
           (appHtmlAround header notFoundHtml footer)"
proof -
  have routes: "Routes (matchPath srv) url routeTable = [NotFound]"
    using assms(2-4) by (rule unmatched_Routes)
  have "reactRenderAll comps url [NotFound] = Inr notFoundHtml"
    by (simp add: NotFound_markup)
  then have r: "renderToString srv (StaticRouter (matchPath srv) url) =
      Inr (appHtmlAround header notFoundHtml footer)"
    unfolding assms(1) StaticRouter_def App_def routes
    by (rule App_markup [of comps url header footer, OF assms(5,6)])
  show ?thesis
    using routes handle_rendered [OF r]
      renderTemplate_complete [of "appHtmlAround header notFoundHtml footer" "Some pageTitle" "today srv"]
      renderTemplate_holds_markup [of "appHtmlAround header notFoundHtml footer" "today srv"]
    by (simp add: NotFound_markup)
qed

theorem unmatched_path_answers_NotFound_witness:
  "response (handle reactServer (asc ''/missing'')) =
     \<lparr>status = 200,
      body = renderTemplate (appHtmlAround sampleHeader notFoundHtml sampleFooter)
               (Some pageTitle) noon\<rparr> \<and>
   mountPointHolds (body (response (handle reactServer (asc ''/missing''))))
     (appHtmlAround sampleHeader notFoundHtml sampleFooter) \<and>
   response (handle reactServer (asc ''/missing'')) \<noteq>
     response (handle reactServer (asc ''/about''))"
proof -
  have prim: "renderToString reactServer = reactRender sampleComponents []"
    and mp: "matchPath reactServer = exactPath" and td: "today reactServer = noon"
    by (simp_all add: reactServer_def)
  have no: "\<not> matchPath reactServer (asc ''/'') (asc ''/missing'')"
    "\<not> matchPath reactServer (asc ''/about'') (asc ''/missing'')"
    "\<not> matchPath reactServer (asc ''/counter'') (asc ''/missing'')"
    by (simp_all add: mp exactPath_def asc_def)
  have hdr: "sampleComponents Header (asc ''/missing'') = Inr sampleHeader"
    and ftr: "sampleComponents Footer (asc ''/missing'') = Inr sampleFooter"
    by simp_all
  note missing = unmatched_path_answers_NotFound [OF prim no hdr ftr]
  from missing have "response (handle reactServer (asc ''/missing'')) =
     \<lparr>status = 200,
      body = renderTemplate (appHtmlAround sampleHeader notFoundHtml sampleFooter)
               (Some pageTitle) (today reactServer)\<rparr>"
    by blast
  then have m1: "response (handle reactServer (asc ''/missing'')) =
     \<lparr>status = 200,
      body = renderTemplate (appHtmlAround sampleHeader notFoundHtml sampleFooter)
               (Some pageTitle) noon\<rparr>"
    by (simp add: td)
  from missing have m2: "mountPointHolds (body (response (handle reactServer (asc ''/missing''))))
     (appHtmlAround sampleHeader notFoundHtml sampleFooter)"
    by blast
  have about: "Routes exactPath (asc ''/about'') routeTable = [Component About]"
    by (simp add: routeTable_def exactPath_def asc_def)
  have "renderToString reactServer (StaticRouter (matchPath reactServer) (asc ''/about'')) =
      Inr (appHtmlAround sampleHeader sampleAbout sampleFooter)"
    unfolding prim mp StaticRouter_def App_def about
    by (rule App_markup) simp_all
  then have a1: "response (handle reactServer (asc ''/about'')) =
      \<lparr>status = 200,
       body = renderTemplate (appHtmlAround sampleHeader sampleAbout sampleFooter)
                (Some pageTitle) noon\<rparr>"
    using handle_rendered(1) by (simp add: td)
  have "notFoundHtml \<noteq> sampleAbout"
    by (simp add: notFoundHtml_def sampleAbout_def asc_def)
  then have "appHtmlAround sampleHeader notFoundHtml sampleFooter \<noteq>
      appHtmlAround sampleHeader sampleAbout sampleFooter"
    by (simp add: appHtmlAround_def)
  then have "renderTemplate (appHtmlAround sampleHeader notFoundHtml sampleFooter)
               (Some pageTitle) noon \<noteq>
      renderTemplate (appHtmlAround sampleHeader sampleAbout sampleFooter) (Some pageTitle) noon"
    using renderTemplate_inj by blast
  with m1 m2 a1 show ?thesis by simp
qed

subsection \<open>The JSON route\<close>

text \<open>
  Claim C8. A \<open>POST\<close> whose body parses to \<open>{"name":"test"}\<close> is answered with status
  201 and a JSON body whose \<open>received.name\<close> is \<open>test\<close>; more generally every body
  that parses is echoed under \<open>received\<close> with status 201. A body that does not parse
  is answered with status 400 and a JSON body that has an \<open>error\<close> field.
\<close>

theorem post_echoes_or_rejects:
  "apiStatus (POST (Inr (JObject [(asc ''name'', JString (asc ''test''))])) now) = 201 \<and>
   jsonPath [asc ''received'', asc ''name'']
     (apiBody (POST (Inr (JObject [(asc ''name'', JString (asc ''test''))])) now)) =
     Some (JString (asc ''test'')) \<and>
   (\<forall>parsed. apiStatus (POST (Inr parsed) now) = 201 \<and>
      field (asc ''received'') (apiBody (POST (Inr parsed) now)) = Some parsed) \<and>
   (\<forall>error. apiStatus (POST (Inl error) now) = 400 \<and>
      field (asc ''error'') (apiBody (POST (Inl error) now)) \<noteq> None)"
  by (simp add: POST_def)

text \<open>
  Claim C10, as amended. The claim gives the message \<open>Hello, X!\<close> for every value X of
  the \<open>name\<close> parameter; the handler's \<open>||\<close> also replaces the empty value. What
  holds: every \<open>GET\<close> is answered with status 200; the message is \<open>Hello, World!\<close>
  when the query has no \<open>name\<close> parameter or its first value is empty, and
  \<open>Hello, X!\<close> when the first value X is not empty.
\<close>

theorem get_greets_World_or_name:
  "apiStatus (GET searchParams now) = 200 \<and>
   field (asc ''message'') (apiBody (GET searchParams now)) =
     Some (JString
       (case searchParamsGet searchParams (asc ''name'') of
          None \<Rightarrow> asc ''Hello, World!''
        | Some x \<Rightarrow> if x = [] then asc ''Hello, World!'' else asc ''Hello, '' @ x @ asc ''!''))"
proof -
  have "asc ''Hello, '' @ asc ''World'' @ asc ''!'' = asc ''Hello, World!''"
    by (simp add: asc_def)
  then show ?thesis
    by (simp add: GET_def orElse_def Let_def split: option.splits)
qed

text \<open>
  The claim C10 as stated fails at \<open>?name=\<close>: the value is the empty string and the
  message is \<open>Hello, World!\<close>, not \<open>Hello, !\<close>.
\<close>

theorem get_empty_name_counterexample:
  "searchParamsGet [(asc ''name'', [])] (asc ''name'') = Some [] \<and>
   field (asc ''message'') (apiBody (GET [(asc ''name'', [])] noon)) =
     Some (JString (asc ''Hello, World!'')) \<and>
   field (asc ''message'') (apiBody (GET [(asc ''name'', [])] noon)) \<noteq>
     Some (JString (asc ''Hello, '' @ [] @ asc ''!''))"
proof -
  have "asc ''Hello, '' @ asc ''World'' @ asc ''!'' = asc ''Hello, World!''"
    and "asc ''Hello, World!'' \<noteq> asc ''Hello, '' @ asc ''!''"
    by (simp_all add: asc_def)
  then show ?thesis
    by (simp add: GET_def orElse_def searchParamsGet_def Let_def)
qed

subsection \<open>The hydration bootstrap\<close>

text \<open>
  Claim C9, as amended. The claim has the bootstrap detect a missing mount point, log
  it and stop before the hydration primitive; the entry file has no such check. What
  holds: when no element has the id \<open>root\<close>, the bootstrap calls \<open>hydrateRoot\<close> once,
  with \<open>null\<close> as the container, and logs nothing of its own before that. If the call
  throws, the exception is uncaught, the run ends there and the completion lines are
  not logged; if the call returns, the completion lines are logged as after any
  hydration.
\<close>

theorem bootstrap_without_mount_point:
  assumes "getElementById b mountId = None"
  shows "case hydrateRoot b None (BrowserRouter (clientMatchPath b) (windowLocation b)) of
           Inl e \<Rightarrow>
             bootstrap b =
               \<lparr>uncaught = Some e,
                clientEvents =
                  [CallHydrateRoot None (BrowserRouter (clientMatchPath b) (windowLocation b))]\<rparr>
         | Inr done \<Rightarrow>
             bootstrap b =
               \<lparr>uncaught = None,
                clientEvents =
                  CallHydrateRoot None (BrowserRouter (clientMatchPath b) (windowLocation b)) #
                  map ClientLog completionLines\<rparr>"
  using assms by (simp add: bootstrap_def Let_def split: sum.splits)

theorem bootstrap_without_mount_point_witness:
  "bootstrap pageWithoutRoot =
     \<lparr>uncaught = Some (Error (asc ''hydrateRoot(...): Target container is not a DOM element.'')),
      clientEvents = [CallHydrateRoot None (BrowserRouter exactPath (asc ''/''))]\<rparr>"
proof -
  have "getElementById pageWithoutRoot mountId = None"
    by (simp add: pageWithoutRoot_def)
  from bootstrap_without_mount_point [OF this] show ?thesis
    by (simp add: pageWithoutRoot_def reactHydrateRoot_def)
qed

text \<open>
  The claim C9 as stated fails on a page without the mount point: the hydration
  primitive is invoked, with \<open>null\<close>, and the bootstrap logs no failure.
\<close>

theorem bootstrap_calls_hydrateRoot_counterexample:
  "getElementById pageWithoutRoot mountId = None \<and>
   CallHydrateRoot None (BrowserRouter exactPath (asc ''/'')) \<in>
     set (clientEvents (bootstrap pageWithoutRoot)) \<and>
   (\<forall>line. ClientLog line \<notin> set (clientEvents (bootstrap pageWithoutRoot)))"
  by (simp add: bootstrap_def pageWithoutRoot_def reactHydrateRoot_def Let_def)

end
